theory Spec2Isabelle
  imports Complex_Main "HOL-Library.AList" "HOL-Library.Sublist"
begin

section \<open>CCNotify: project resolution, event classification and the sound cache\<close>

text \<open>
  A shallow embedding of \<^verbatim>\<open>src/ccnotify/notify.py\<close>. Python strings are lists of
  characters with code points below 256; values read from JSON documents are a datatype;
  every Python exception that can leave a function is a value of \<open>py_error\<close>; the files
  the program reads and writes are fields of a record that is passed through; what the
  program reads from its surroundings (clock, directory listing, path resolution, the
  synthesis library) is a record of functions.
\<close>

subsection \<open>Strings\<close>

text \<open>\<^verbatim>\<open>s.startswith(p)\<close>, \<^verbatim>\<open>sub in s\<close>, \<^verbatim>\<open>s.split(c)\<close> for a one-character separator,
  \<^verbatim>\<open>sep.join(xs)\<close> and \<^verbatim>\<open>s.replace(a, b)\<close> for one-character \<open>a\<close>, \<open>b\<close>.\<close>

definition startswith :: "string \<Rightarrow> string \<Rightarrow> bool" where
  "startswith s p = (take (length p) s = p)"

fun contains :: "string \<Rightarrow> string \<Rightarrow> bool" where
  "contains [] sub = (sub = [])"
| "contains (x # xs) sub = (startswith (x # xs) sub \<or> contains xs sub)"

fun split_on :: "char \<Rightarrow> string \<Rightarrow> string list" where
  "split_on c [] = [[]]"
| "split_on c (x # xs) =
     (if x = c then [] # split_on c xs
      else (case split_on c xs of
              [] \<Rightarrow> [[x]]
            | y # ys \<Rightarrow> (x # y) # ys))"

fun join :: "string \<Rightarrow> string list \<Rightarrow> string" where
  "join sep [] = []"
| "join sep [x] = x"
| "join sep (x # y # ys) = x @ sep @ join sep (y # ys)"

definition replace_char :: "char \<Rightarrow> char \<Rightarrow> string \<Rightarrow> string" where
  "replace_char a b s = map (\<lambda>c. if c = a then b else c) s"

text \<open>Whitespace as \<^verbatim>\<open>str.isspace\<close> has it on code points below 256: tab, line feed,
  vertical tab, form feed, carriage return, the four separators 28 to 31, space, next
  line (133) and no-break space (160).\<close>

definition is_space :: "char \<Rightarrow> bool" where
  "is_space c = (c \<in> set [CHR 0x09, CHR 0x0A, CHR 0x0B, CHR 0x0C, CHR 0x0D,
                            CHR 0x1C, CHR 0x1D, CHR 0x1E, CHR 0x1F, CHR 0x20,
                            CHR 0x85, CHR 0xA0])"

definition py_strip :: "string \<Rightarrow> string" where
  "py_strip s = rev (dropWhile is_space (rev (dropWhile is_space s)))"

text \<open>\<^verbatim>\<open>s.split()\<close>: the maximal runs of non-whitespace characters.\<close>

fun split_ws_aux :: "string \<Rightarrow> string \<Rightarrow> string list" where
  "split_ws_aux cur [] = (if cur = [] then [] else [rev cur])"
| "split_ws_aux cur (x # xs) =
     (if is_space x then (if cur = [] then split_ws_aux [] xs else rev cur # split_ws_aux [] xs)
      else split_ws_aux (x # cur) xs)"

definition py_split :: "string \<Rightarrow> string list" where
  "py_split s = split_ws_aux [] s"

text \<open>\<^verbatim>\<open>str.lower\<close> on code points below 256: the letters A to Z and the capital
  letters 192 to 222 (but the multiplication sign 215) move up by 32.\<close>

definition upper_chars :: "char list" where
  "upper_chars = ''ABCDEFGHIJKLMNOPQRSTUVWXYZ'' @
     [CHR 0xC0, CHR 0xC1, CHR 0xC2, CHR 0xC3, CHR 0xC4, CHR 0xC5,
      CHR 0xC6, CHR 0xC7, CHR 0xC8, CHR 0xC9, CHR 0xCA, CHR 0xCB,
      CHR 0xCC, CHR 0xCD, CHR 0xCE, CHR 0xCF, CHR 0xD0, CHR 0xD1,
      CHR 0xD2, CHR 0xD3, CHR 0xD4, CHR 0xD5, CHR 0xD6, CHR 0xD8,
      CHR 0xD9, CHR 0xDA, CHR 0xDB, CHR 0xDC, CHR 0xDD, CHR 0xDE]"

definition lower_chars :: "char list" where
  "lower_chars = ''abcdefghijklmnopqrstuvwxyz'' @
     [CHR 0xE0, CHR 0xE1, CHR 0xE2, CHR 0xE3, CHR 0xE4, CHR 0xE5,
      CHR 0xE6, CHR 0xE7, CHR 0xE8, CHR 0xE9, CHR 0xEA, CHR 0xEB,
      CHR 0xEC, CHR 0xED, CHR 0xEE, CHR 0xEF, CHR 0xF0, CHR 0xF1,
      CHR 0xF2, CHR 0xF3, CHR 0xF4, CHR 0xF5, CHR 0xF6, CHR 0xF8,
      CHR 0xF9, CHR 0xFA, CHR 0xFB, CHR 0xFC, CHR 0xFD, CHR 0xFE]"

definition lower_char :: "char \<Rightarrow> char" where
  "lower_char c = (case map_of (zip upper_chars lower_chars) c of None \<Rightarrow> c | Some l \<Rightarrow> l)"

definition py_lower :: "string \<Rightarrow> string" where
  "py_lower s = map lower_char s"

subsection \<open>JSON values and Python exceptions\<close>

text \<open>What \<^verbatim>\<open>json.load\<close> returns. An object is the list of its items in order (a Python
  dict keeps insertion order); a number carries its value as a real number, so the
  rounding of floating-point arithmetic is not part of the model.\<close>

datatype json =
    JNull
  | JBool bool
  | JNum real
  | JStr string
  | JArr "json list"
  | JObj "(string \<times> json) list"

datatype py_error = AttributeError | TypeError | KeyError

text \<open>\<^verbatim>\<open>d.get(k, default)\<close> and \<^verbatim>\<open>d[k] = v\<close> on the items of a dict.\<close>

definition dict_get :: "(string \<times> json) list \<Rightarrow> string \<Rightarrow> json \<Rightarrow> json" where
  "dict_get d k dflt = (case map_of d k of None \<Rightarrow> dflt | Some v \<Rightarrow> v)"

definition dict_set :: "(string \<times> json) list \<Rightarrow> string \<Rightarrow> json \<Rightarrow> (string \<times> json) list" where
  "dict_set d k v = AList.update k v d"

text \<open>\<^verbatim>\<open>x.get(k, default)\<close> on any value: only a dict has the method.\<close>

definition py_get :: "json \<Rightarrow> string \<Rightarrow> json \<Rightarrow> py_error + json" where
  "py_get x k dflt = (case x of JObj d \<Rightarrow> Inr (dict_get d k dflt) | _ \<Rightarrow> Inl AttributeError)"

text \<open>Truthiness (\<^verbatim>\<open>if x\<close>).\<close>

fun py_truthy :: "json \<Rightarrow> bool" where
  "py_truthy JNull = False"
| "py_truthy (JBool b) = b"
| "py_truthy (JNum r) = (r \<noteq> 0)"
| "py_truthy (JStr s) = (s \<noteq> [])"
| "py_truthy (JArr xs) = (xs \<noteq> [])"
| "py_truthy (JObj d) = (d \<noteq> [])"

text \<open>The numeric value of an operand of \<^verbatim>\<open>-\<close>: numbers, and booleans as 0 and 1;
  anything else raises \<^verbatim>\<open>TypeError\<close>.\<close>

fun py_number :: "json \<Rightarrow> real option" where
  "py_number (JNum r) = Some r"
| "py_number (JBool b) = Some (if b then 1 else 0)"
| "py_number _ = None"

subsection \<open>The project cache: pruning\<close>

definition CACHE_EXPIRY_DAYS :: real where
  "CACHE_EXPIRY_DAYS = 7"

definition expiry_seconds :: real where
  "expiry_seconds = CACHE_EXPIRY_DAYS * 24 * 60 * 60"

text \<open>\<^verbatim>\<open>data.get('timestamp', 0)\<close> as a number: \<^verbatim>\<open>AttributeError\<close> when the entry is not a
  dict, \<^verbatim>\<open>TypeError\<close> when the stored value cannot be subtracted from the clock.\<close>

definition entry_timestamp :: "json \<Rightarrow> py_error + real" where
  "entry_timestamp data =
     (case data of
        JObj d \<Rightarrow> (case py_number (dict_get d ''timestamp'' (JNum 0)) of
                     None \<Rightarrow> Inl TypeError
                   | Some t \<Rightarrow> Inr t)
      | _ \<Rightarrow> Inl AttributeError)"

text \<open>The loop of \<^verbatim>\<open>clean_old_cache_entries\<close> over \<^verbatim>\<open>cache.items()\<close>; the first entry
  that raises ends it.\<close>

fun clean_items :: "real \<Rightarrow> (string \<times> json) list \<Rightarrow> py_error + (string \<times> json) list" where
  "clean_items current_time [] = Inr []"
| "clean_items current_time ((session_id, data) # rest) =
     (case entry_timestamp data of
        Inl e \<Rightarrow> Inl e
      | Inr t \<Rightarrow>
          (case clean_items current_time rest of
             Inl e \<Rightarrow> Inl e
           | Inr cleaned \<Rightarrow>
               Inr (if current_time - t < expiry_seconds
                    then (session_id, data) # cleaned else cleaned)))"

definition clean_old_cache_entries :: "real \<Rightarrow> json \<Rightarrow> py_error + (string \<times> json) list" where
  "clean_old_cache_entries current_time cache =
     (case cache of
        JObj items \<Rightarrow> clean_items current_time items
      | _ \<Rightarrow> Inl AttributeError)"

subsection \<open>Project folder names\<close>

definition decode_project_folder_name :: "string \<Rightarrow> string option" where
  "decode_project_folder_name folder_name =
     (if \<not> startswith folder_name ''-'' then None
      else let parts = split_on (CHR ''-'') (drop 1 folder_name)
           in Some (''/'' @ join ''/'' parts))"

text \<open>The encoding that \<^verbatim>\<open>decode_project_folder_name\<close> reverses is not code of this
  program (the folders are made by the tool whose hooks it serves). The two definitions
  below follow the words of the specification: an absolute path is its segments joined
  with \<open>/\<close> after a leading \<open>/\<close>; its folder name is the segments joined with \<open>-\<close> after
  the leading marker \<open>-\<close>.\<close>

definition path_of_segments :: "string list \<Rightarrow> string" where
  "path_of_segments segs = ''/'' @ join ''/'' segs"

definition encode_segments_spec :: "string list \<Rightarrow> string" where
  "encode_segments_spec segs = ''-'' @ join ''-'' segs"

definition encode_path_spec :: "string \<Rightarrow> string" where
  "encode_path_spec path = encode_segments_spec (split_on (CHR ''/'') (drop 1 path))"

subsection \<open>Paths\<close>

text \<open>\<^verbatim>\<open>pathlib\<close> on POSIX: a path is split at \<open>/\<close>, and empty segments and \<open>.\<close> segments
  are dropped; the root is \<open>//\<close> for exactly two leading slashes and \<open>/\<close> for any other
  number of them. \<^verbatim>\<open>Path(s).parts\<close> is the root, when there is one, followed by the
  segments, and \<^verbatim>\<open>Path(s).name\<close> is the last segment, or the empty string.\<close>

definition path_segments :: "string \<Rightarrow> string list" where
  "path_segments s = filter (\<lambda>p. p \<noteq> [] \<and> p \<noteq> ''.'') (split_on (CHR ''/'') s)"

definition path_root :: "string \<Rightarrow> string" where
  "path_root s =
     (if startswith s ''//'' \<and> \<not> startswith s ''///'' then ''//''
      else if startswith s ''/'' then ''/'' else [])"

definition path_parts :: "string \<Rightarrow> string list" where
  "path_parts s = (if path_root s = [] then path_segments s else path_root s # path_segments s)"

definition path_name :: "string \<Rightarrow> string" where
  "path_name s = (if path_segments s = [] then [] else last (path_segments s))"

text \<open>\<^verbatim>\<open>Path.parents\<close> of a resolved path given by its parts: the proper prefixes that keep
  the root, the nearest first.\<close>

definition path_parents :: "string list \<Rightarrow> string list list" where
  "path_parents parts = map (\<lambda>n. take n parts) (rev [1..<length parts])"

subsection \<open>Files, surroundings and effects\<close>

text \<open>A file the program reads with \<^verbatim>\<open>json.load\<close> is missing, or cannot be read as JSON
  (the \<^verbatim>\<open>open\<close> or the parse raises), or holds a document.\<close>

datatype file_state = Missing | Unreadable | Doc json

text \<open>The calls that reach outside the process, in the order they are made.\<close>

datatype effect =
    GlobSessionFile string
  | AutoAddProject string string
  | SaveProjectCache
  | GenerateSound string string
  | ShowNotification json json
  | PlaySound string

record world =
  cache_file :: file_state
  replacements_file :: file_state
  sound_files :: "string list"
  calls :: "effect list"

text \<open>What the program reads from its surroundings and cannot change:
  \<^item> \<open>time_prune\<close> and \<open>time_store\<close>: the two readings of \<^verbatim>\<open>time.time()\<close>, in
    \<^verbatim>\<open>clean_old_cache_entries\<close> and when a cache entry is built;
  \<^item> \<open>glob_projects\<close>: for a session file name, the names of the project folders under
    \<^verbatim>\<open>PROJECTS_DIR\<close> that hold such a file, in the order \<^verbatim>\<open>glob.glob\<close> lists them, or
    \<open>None\<close> when the listing raises;
  \<^item> \<open>resolve_path\<close>: the parts of \<^verbatim>\<open>Path(s).resolve()\<close>, or \<open>None\<close> when it raises;
  \<^item> \<open>cache_writable\<close>, \<open>replacements_writable\<close>: whether opening the file for writing
    succeeds;
  \<^item> \<open>getcwd\<close>: \<^verbatim>\<open>os.getcwd()\<close>;
  \<^item> \<open>str_of\<close>: \<^verbatim>\<open>str(x)\<close> for a value that is not a string.\<close>

record env =
  time_prune :: real
  time_store :: real
  glob_projects :: "string \<Rightarrow> string list option"
  resolve_path :: "string \<Rightarrow> string list option"
  cache_writable :: bool
  replacements_writable :: bool
  getcwd :: string
  str_of :: "json \<Rightarrow> string"

definition py_str :: "env \<Rightarrow> json \<Rightarrow> string" where
  "py_str e x = (case x of JStr s \<Rightarrow> s | _ \<Rightarrow> str_of e x)"

definition record_call :: "effect \<Rightarrow> world \<Rightarrow> world" where
  "record_call c w = w\<lparr>calls := calls w @ [c]\<rparr>"

subsection \<open>The project cache: load and save\<close>

definition load_project_cache :: "world \<Rightarrow> json" where
  "load_project_cache w = (case cache_file w of Doc j \<Rightarrow> j | _ \<Rightarrow> JObj [])"

definition save_project_cache :: "env \<Rightarrow> (string \<times> json) list \<Rightarrow> world \<Rightarrow> world" where
  "save_project_cache e cache w =
     (let w1 = record_call SaveProjectCache w
      in if cache_writable e then w1\<lparr>cache_file := Doc (JObj cache)\<rparr> else w1)"


text \<open>Both arguments come from JSON documents; \<^verbatim>\<open>Path(x)\<close> raises for a value that is not
  a string, and every exception is caught.\<close>

definition is_cwd_under_project :: "env \<Rightarrow> json \<Rightarrow> json \<Rightarrow> bool" where
  "is_cwd_under_project e cwd project_path =
     (case (cwd, project_path) of
        (JStr c, JStr p) \<Rightarrow>
          (case resolve_path e c of
             None \<Rightarrow> False
           | Some cwd_path \<Rightarrow>
               (case resolve_path e p of
                  None \<Rightarrow> False
                | Some project_path_obj \<Rightarrow>
                    project_path_obj \<in> set (path_parents cwd_path) \<or> cwd_path = project_path_obj))
      | _ \<Rightarrow> False)"

subsection \<open>The replacements document\<close>

definition default_replacements :: json where
  "default_replacements =
     JObj [(''project_names'', JObj [(''replacements'', JObj [])]),
           (''commands'', JObj [(''replacements'', JObj [])]),
           (''patterns'', JObj [(''replacements'', JArr [])])]"

definition load_replacements :: "world \<Rightarrow> json" where
  "load_replacements w = (case replacements_file w of Doc j \<Rightarrow> j | _ \<Rightarrow> default_replacements)"

text \<open>The body of \<^verbatim>\<open>auto_add_project_to_replacements\<close> up to the write: \<open>Inr None\<close> when
  the project is already listed, \<open>Inr (Some doc)\<close> with the document to write otherwise,
  \<open>Inl\<close> when a step raises. A value that is not a dict has no \<^verbatim>\<open>get\<close> and no \<^verbatim>\<open>keys\<close>
  (\<^verbatim>\<open>AttributeError\<close>) and takes no item under a string key (\<^verbatim>\<open>TypeError\<close>).\<close>

definition project_names_comment :: string where
  "project_names_comment =
     ''Maps project names to human-friendly names. Keys are matched case-insensitively.''"

definition auto_discovered_comment :: string where
  "auto_discovered_comment =
     ''Projects below were auto-discovered. You can customize their pronunciation by editing the values.''"

definition auto_add_document :: "json \<Rightarrow> string \<Rightarrow> string \<Rightarrow> py_error + json option" where
  "auto_add_document replacements project_name folder_name =
     (case replacements of
        JObj r \<Rightarrow>
          (case dict_get r ''project_names'' (JObj []) of
             JObj pn \<Rightarrow>
               (case dict_get pn ''replacements'' (JObj []) of
                  JObj project_replacements \<Rightarrow>
                    if \<exists>key \<in> set (map fst project_replacements).
                         py_lower project_name = py_lower key
                    then Inr None
                    else
                      let friendly_name = replace_char (CHR ''-'') (CHR '' '') project_name;
                          project_replacements1 =
                            dict_set project_replacements project_name (JStr friendly_name);
                          pn1 = dict_set pn ''replacements'' (JObj project_replacements1);
                          pn2 = (if map_of pn1 ''comment'' = None
                                 then dict_set pn1 ''comment'' (JStr project_names_comment)
                                 else pn1);
                          r1 = dict_set r ''project_names'' (JObj pn2);
                          r2 = (if map_of r1 ''_auto_discovered'' = None
                                then dict_set r1 ''_auto_discovered''
                                       (JObj [(''comment'', JStr auto_discovered_comment)])
                                else r1)
                      in (case dict_get r2 ''_auto_discovered'' JNull of
                            JObj ad \<Rightarrow>
                              (let ad1 = (if map_of ad ''projects'' = None
                                          then dict_set ad ''projects'' (JObj []) else ad)
                               in case dict_get ad1 ''projects'' JNull of
                                    JObj projects \<Rightarrow>
                                      (let projects1 = dict_set projects project_name
                                             (JObj [(''folder'', JStr folder_name),
                                                    (''display_name'', JStr project_name),
                                                    (''pronunciation'', JStr friendly_name)]);
                                           ad2 = dict_set ad1 ''projects'' (JObj projects1)
                                       in Inr (Some (JObj (dict_set r2 ''_auto_discovered'' (JObj ad2)))))
                                  | _ \<Rightarrow> Inl TypeError)
                          | _ \<Rightarrow> Inl TypeError)
                | _ \<Rightarrow> Inl AttributeError)
           | _ \<Rightarrow> Inl AttributeError)
      | _ \<Rightarrow> Inl AttributeError)"

text \<open>Every exception is caught; the file changes only when the document was built and
  the file can be opened for writing.\<close>

definition auto_add_project_to_replacements :: "env \<Rightarrow> string \<Rightarrow> string \<Rightarrow> world \<Rightarrow> world" where
  "auto_add_project_to_replacements e project_name folder_name w =
     (let w1 = record_call (AutoAddProject project_name folder_name) w
      in case auto_add_document (load_replacements w1) project_name folder_name of
           Inr (Some doc) \<Rightarrow>
             if replacements_writable e then w1\<lparr>replacements_file := Doc doc\<rparr> else w1
         | _ \<Rightarrow> w1)"

text \<open>\<^verbatim>\<open>apply_project_name_replacement\<close>: the first key that matches without regard to
  case gives its value, whatever its type.\<close>

fun first_project_match :: "string \<Rightarrow> (string \<times> json) list \<Rightarrow> json option" where
  "first_project_match project_name [] = None"
| "first_project_match project_name ((original, replacement) # rest) =
     (if py_lower project_name = py_lower original then Some replacement
      else first_project_match project_name rest)"

definition apply_project_name_replacement :: "string \<Rightarrow> json \<Rightarrow> py_error + json" where
  "apply_project_name_replacement project_name replacements =
     (case replacements of
        JObj r \<Rightarrow>
          (case dict_get r ''project_names'' (JObj []) of
             JObj pn \<Rightarrow>
               (case dict_get pn ''replacements'' (JObj []) of
                  JObj project_replacements \<Rightarrow>
                    (case first_project_match project_name project_replacements of
                       None \<Rightarrow> Inr (JStr project_name)
                     | Some replacement \<Rightarrow> Inr replacement)
                | _ \<Rightarrow> Inl AttributeError)
           | _ \<Rightarrow> Inl AttributeError)
      | _ \<Rightarrow> Inl AttributeError)"

subsection \<open>Resolving the project name\<close>

definition common_parents :: "string list" where
  "common_parents =
     [''code'', ''projects'', ''dev'', ''work'', ''repos'', ''src'', ''Documents'', ''Desktop'']"

text \<open>The loop over \<^verbatim>\<open>enumerate(path_parts)\<close>: the parts after the first common parent
  that is not the last part.\<close>

fun remaining_after_parent :: "string list \<Rightarrow> string list option" where
  "remaining_after_parent [] = None"
| "remaining_after_parent (part # rest) =
     (if part \<in> set common_parents \<and> rest \<noteq> [] then Some rest
      else remaining_after_parent rest)"

definition project_name_of_path :: "string \<Rightarrow> string" where
  "project_name_of_path actual_project_path =
     (case remaining_after_parent (path_parts actual_project_path) of
        None \<Rightarrow> path_name actual_project_path
      | Some remaining_parts \<Rightarrow>
          if length remaining_parts = 1 then hd remaining_parts
          else if length remaining_parts = 2 then join ''-'' remaining_parts
          else last remaining_parts)"

text \<open>Lines 337 to 403: the search for the session file, inside \<^verbatim>\<open>try\<close>. The check of
  \<open>cwd\<close> against the decoded path only writes to the log.\<close>

definition resolve_from_session_file ::
  "env \<Rightarrow> string \<Rightarrow> (string \<times> json) list \<Rightarrow> world \<Rightarrow> json \<times> world" where
  "resolve_from_session_file e session_id cache w =
     (let session_file = session_id @ ''.jsonl'';
          w1 = record_call (GlobSessionFile session_file) w
      in case glob_projects e session_file of
           None \<Rightarrow> (JStr ''unknown'', w1)
         | Some [] \<Rightarrow> (JStr ''unknown'', w1)
         | Some (folder_name # others) \<Rightarrow>
             (case decode_project_folder_name folder_name of
                None \<Rightarrow> (JStr ''unknown'', w1)
              | Some actual_project_path \<Rightarrow>
                  if actual_project_path = [] then (JStr ''unknown'', w1)
                  else
                    let project_name = project_name_of_path actual_project_path;
                        w2 = auto_add_project_to_replacements e project_name folder_name w1;
                        cache1 = dict_set cache session_id
                                   (JObj [(''project_name'', JStr project_name),
                                          (''timestamp'', JNum (time_store e)),
                                          (''project_path'', JStr actual_project_path),
                                          (''claude_folder'', JStr folder_name)])
                    in (JStr project_name, save_project_cache e cache1 w2)))"

text \<open>\<^verbatim>\<open>resolve_project_name(session_id, cwd)\<close>; \<open>cwd\<close> is \<open>JNull\<close> for the default
  \<^verbatim>\<open>None\<close>. Loading, pruning and the look at the cached entry stand outside every
  \<^verbatim>\<open>try\<close>: what they raise leaves the function.\<close>

definition resolve_project_name ::
  "env \<Rightarrow> string \<Rightarrow> json \<Rightarrow> world \<Rightarrow> (py_error + json) \<times> world" where
  "resolve_project_name e session_id cwd w =
     (case clean_old_cache_entries (time_prune e) (load_project_cache w) of
        Inl err \<Rightarrow> (Inl err, w)
      | Inr cache \<Rightarrow>
          (case map_of cache session_id of
             None \<Rightarrow>
               (let (name, w1) = resolve_from_session_file e session_id cache w in (Inr name, w1))
           | Some (JObj entry) \<Rightarrow>
               (case map_of entry ''project_name'' of
                  None \<Rightarrow> (Inl KeyError, w)
                | Some cached_name \<Rightarrow>
                    (case (if py_truthy cwd then map_of entry ''project_path'' else None) of
                       Some cached_path \<Rightarrow>
                         if \<not> is_cwd_under_project e cwd cached_path
                         then (let (name, w1) = resolve_from_session_file e session_id cache w
                               in (Inr name, w1))
                         else (Inr cached_name, w)
                     | None \<Rightarrow> (Inr cached_name, w)))
           | Some other \<Rightarrow> (Inl TypeError, w)))"

subsection \<open>The speech provider and the sound cache\<close>

text \<open>\<^verbatim>\<open>KokoroTTSProvider\<close>: its \<open>format\<close> field, and what its methods read from the
  libraries they call:
  \<^item> \<open>md5_hexdigest\<close>: \<^verbatim>\<open>hashlib.md5(text.encode()).hexdigest()\<close>;
  \<^item> \<open>synthesis_ok\<close>: whether creating the audio for a text and writing it to the WAV
    buffer succeed;
  \<^item> \<open>pydub_importable\<close>: whether \<^verbatim>\<open>from pydub import AudioSegment\<close> succeeds;
  \<^item> \<open>export_ok\<close>: whether the conversion to MP3 and its export succeed;
  \<^item> \<open>sound_writable\<close>: whether opening the output file for writing succeeds.\<close>

record provider =
  format :: string
  md5_hexdigest :: "string \<Rightarrow> string"
  synthesis_ok :: "string \<Rightarrow> bool"
  pydub_importable :: bool
  export_ok :: bool
  sound_writable :: bool

definition get_cache_key :: "provider \<Rightarrow> string \<Rightarrow> string" where
  "get_cache_key p text = take 16 (md5_hexdigest p text)"

definition get_file_extension :: "provider \<Rightarrow> string" where
  "get_file_extension p =
     (if format p = ''mp3'' then ''.mp3''
      else if format p = ''aiff'' then ''.aiff''
      else ''.wav'')"

text \<open>\<^verbatim>\<open>Path.suffix\<close> and \<^verbatim>\<open>Path.with_suffix\<close> on a file below the sounds directory, given
  by its path relative to that directory. The suffix starts at the last dot of the last
  component, when that dot is neither its first nor its last character.\<close>

definition path_suffix :: "string \<Rightarrow> string" where
  "path_suffix path =
     (let name = rev (takeWhile (\<lambda>c. c \<noteq> CHR ''/'') (rev path));
          ext = rev (takeWhile (\<lambda>c. c \<noteq> CHR ''.'') (rev name))
      in if CHR ''.'' \<in> set name \<and> ext \<noteq> [] \<and> length ext + 1 < length name
         then CHR ''.'' # ext else [])"

definition with_suffix :: "string \<Rightarrow> string \<Rightarrow> string" where
  "with_suffix path new_suffix =
     take (length path - length (path_suffix path)) path @ new_suffix"

definition add_sound_file :: "string \<Rightarrow> world \<Rightarrow> world" where
  "add_sound_file path w = w\<lparr>sound_files := List.insert path (sound_files w)\<rparr>"

text \<open>\<^verbatim>\<open>KokoroTTSProvider.generate\<close>: every exception is caught and gives \<^verbatim>\<open>False\<close>. Without
  \<^verbatim>\<open>pydub\<close> an MP3 request is written as WAV, under the path with the suffix replaced.
  A call that fails is taken to leave no file behind.\<close>

definition generate :: "provider \<Rightarrow> string \<Rightarrow> string \<Rightarrow> world \<Rightarrow> bool \<times> world" where
  "generate p text output_path w =
     (let w1 = record_call (GenerateSound text output_path) w
      in if \<not> synthesis_ok p text then (False, w1)
         else if format p = ''mp3'' then
           (if pydub_importable p then
              (if export_ok p then (True, add_sound_file output_path w1) else (False, w1))
            else
              (if sound_writable p
               then (True, add_sound_file (with_suffix output_path ''.wav'') w1)
               else (False, w1)))
         else
           (if sound_writable p then (True, add_sound_file output_path w1) else (False, w1)))"

text \<open>The handler: the settings \<^verbatim>\<open>USE_TTS\<close> and \<^verbatim>\<open>TTS_PROVIDER\<close>, and the provider that
  \<^verbatim>\<open>_init_tts_provider\<close> left in \<^verbatim>\<open>self.tts_provider\<close> (\<open>None\<close> when there is none).\<close>

record handler =
  USE_TTS :: bool
  TTS_PROVIDER :: string
  tts_provider :: "provider option"

definition default_texts :: "(string \<times> string) list" where
  "default_texts =
     [(''tool_activity'', ''Tool activity''),
      (''execution_complete'', ''Task complete''),
      (''subagent_done'', ''Sub agent done''),
      (''error'', ''Error occurred''),
      (''tool_blocked'', ''Tool blocked''),
      (''compaction'', ''Compacting context''),
      (''input_needed'', ''Input needed'')]"

definition text_to_speak :: "string \<Rightarrow> string \<Rightarrow> string" where
  "text_to_speak event custom_text =
     (if custom_text \<noteq> [] then custom_text
      else (case map_of default_texts event of
              None \<Rightarrow> ''Claude notification''
            | Some t \<Rightarrow> t))"

definition sound_file_name :: "handler \<Rightarrow> provider \<Rightarrow> string \<Rightarrow> string \<Rightarrow> string" where
  "sound_file_name h p event custom_text =
     TTS_PROVIDER h @ ''_'' @ event @ ''_''
       @ get_cache_key p (text_to_speak event custom_text) @ get_file_extension p"

definition get_notification_sound ::
  "handler \<Rightarrow> string \<Rightarrow> string \<Rightarrow> world \<Rightarrow> string option \<times> world" where
  "get_notification_sound h event custom_text w =
     (if \<not> USE_TTS h then (None, w)
      else case tts_provider h of
        None \<Rightarrow> (None, w)
      | Some p \<Rightarrow>
          (let sound_file = sound_file_name h p event custom_text
           in if sound_file \<in> set (sound_files w) then (Some sound_file, w)
              else (let (success, w1) = generate p (text_to_speak event custom_text) sound_file w
                    in if success then (Some sound_file, w1) else (None, w1))))"

text \<open>\<^verbatim>\<open>play_sound_file\<close>: the player is started only for a file that exists.\<close>

definition play_sound_file :: "string \<Rightarrow> world \<Rightarrow> world" where
  "play_sound_file sound_path w =
     (if sound_path \<in> set (sound_files w) then record_call (PlaySound sound_path) w else w)"

fun is_generate :: "effect \<Rightarrow> bool" where
  "is_generate (GenerateSound text path) = True"
| "is_generate other = False"

subsection \<open>Classifying a hook\<close>

text \<open>What \<^verbatim>\<open>handle_hook\<close> has decided when it reaches line 759: the three variables
  \<^verbatim>\<open>event_type\<close>, \<^verbatim>\<open>message\<close> and \<^verbatim>\<open>custom_tts\<close>. The message is a JSON value, since one
  branch takes it from the hook as it is; \<open>JNull\<close> is Python's \<^verbatim>\<open>None\<close>.\<close>

record notification =
  event_type :: "string option"
  message :: json
  custom_tts :: "string option"

definition no_notification :: notification where
  "no_notification = \<lparr>event_type = None, message = JNull, custom_tts = None\<rparr>"

definition hook_type :: "(string \<times> json) list \<Rightarrow> json" where
  "hook_type hook_data =
     dict_get hook_data ''event'' (dict_get hook_data ''hook_event_name'' (JStr ''unknown''))"

definition hook_tool_name :: "(string \<times> json) list \<Rightarrow> json" where
  "hook_tool_name hook_data =
     dict_get hook_data ''tool'' (dict_get hook_data ''tool_name'' (JStr ''unknown''))"

definition hook_parameters :: "(string \<times> json) list \<Rightarrow> json" where
  "hook_parameters hook_data =
     dict_get hook_data ''parameters'' (dict_get hook_data ''tool_input'' (JObj []))"

text \<open>\<^verbatim>\<open>x in v\<close> for a string \<open>x\<close>: substring of a string, element of a list, key of a dict;
  \<^verbatim>\<open>TypeError\<close> for a number, a boolean or \<^verbatim>\<open>None\<close>.\<close>

definition py_in :: "string \<Rightarrow> json \<Rightarrow> py_error + bool" where
  "py_in x v =
     (case v of
        JStr s \<Rightarrow> Inr (contains s x)
      | JArr xs \<Rightarrow> Inr (JStr x \<in> set xs)
      | JObj d \<Rightarrow> Inr (map_of d x \<noteq> None)
      | _ \<Rightarrow> Inl TypeError)"

text \<open>\<^verbatim>\<open>any(x in v for x in xs)\<close>: the first test that raises ends it.\<close>

fun py_any_in :: "string list \<Rightarrow> json \<Rightarrow> py_error + bool" where
  "py_any_in [] v = Inr False"
| "py_any_in (x # xs) v =
     (case py_in x v of
        Inl err \<Rightarrow> Inl err
      | Inr True \<Rightarrow> Inr True
      | Inr False \<Rightarrow> py_any_in xs v)"

definition safe_prefixes :: "string list" where
  "safe_prefixes =
     [''echo'', ''pwd'', ''ls'', ''cat'', ''head'', ''tail'', ''grep'', ''find'', ''which'']"

definition dangerous_prefixes :: "string list" where
  "dangerous_prefixes =
     [''rm'', ''mv'', ''cp'', ''sudo'', ''chmod'', ''chown'', ''>'', ''curl'', ''wget'']"

text \<open>Lines 639 to 645: the target of a command, from its whitespace-separated parts.\<close>

definition command_target :: "string list \<Rightarrow> string option" where
  "command_target cmd_parts =
     (if length cmd_parts > 1 \<and> cmd_parts ! 1 \<noteq> [] then
        (let target = (if CHR ''/'' \<in> set (cmd_parts ! 1) then path_name (cmd_parts ! 1)
                       else cmd_parts ! 1)
         in if startswith target ''-''
            then (if length cmd_parts > 2 then Some (path_name (last cmd_parts)) else None)
            else Some target)
      else None)"

text \<open>\<^verbatim>\<open>if target\<close>: neither \<^verbatim>\<open>None\<close> nor empty.\<close>

definition target_given :: "string option \<Rightarrow> bool" where
  "target_given target = (case target of None \<Rightarrow> False | Some t \<Rightarrow> t \<noteq> [])"

definition target_text :: "string option \<Rightarrow> string" where
  "target_text target = (case target of None \<Rightarrow> ''None'' | Some t \<Rightarrow> t)"

definition tts_descriptions :: "string option \<Rightarrow> (string \<times> string) list" where
  "tts_descriptions target =
     [(''rm'', if target_given target then ''removing '' @ target_text target
               else ''removing files''),
      (''rm -rf'', if target_given target then ''force removing '' @ target_text target
                   else ''force removing files''),
      (''rm -r'', if target_given target then ''removing directory '' @ target_text target
                  else ''removing directory''),
      (''mv'', if target_given target then ''moving '' @ target_text target
               else ''moving files''),
      (''cp'', if target_given target then ''copying '' @ target_text target
               else ''copying files''),
      (''sudo'', ''running with admin privileges''),
      (''chmod'', if target_given target then ''changing permissions on '' @ target_text target
                  else ''changing permissions''),
      (''chown'', if target_given target then ''changing ownership of '' @ target_text target
                  else ''changing ownership''),
      (''curl'', ''downloading from web''),
      (''wget'', ''downloading file'')]"

text \<open>\<^verbatim>\<open>d[k]\<close> on a dict of strings whose key \<open>k\<close> is there.\<close>

definition dict_text :: "(string \<times> string) list \<Rightarrow> string \<Rightarrow> string" where
  "dict_text d k = (case map_of d k of None \<Rightarrow> [] | Some v \<Rightarrow> v)"

definition audio_description :: "string \<Rightarrow> string \<Rightarrow> string option \<Rightarrow> string" where
  "audio_description command cmd_summary target =
     (if cmd_summary = ''rm'' \<and> contains command ''-rf''
      then dict_text (tts_descriptions target) ''rm -rf''
      else if cmd_summary = ''rm'' \<and> contains command ''-r''
      then dict_text (tts_descriptions target) ''rm -r''
      else (case map_of (tts_descriptions target) cmd_summary of
              Some d \<Rightarrow> d
            | None \<Rightarrow> ''running '' @ cmd_summary))"

text \<open>Lines 622 to 678: the tool is \<^verbatim>\<open>Bash\<close>. \<open>None\<close> is the \<^verbatim>\<open>return\<close> of line 628.\<close>

definition classify_bash ::
  "env \<Rightarrow> json \<Rightarrow> (string \<times> json) list \<Rightarrow> py_error + notification option" where
  "classify_bash e display_project_name hook_data =
     (case py_get (hook_parameters hook_data) ''command'' (JStr []) of
        Inl err \<Rightarrow> Inl err
      | Inr (JStr command) \<Rightarrow>
          if \<exists>pre \<in> set safe_prefixes. startswith (py_strip command) pre then Inr None
          else if \<exists>marker \<in> set dangerous_prefixes. contains command marker then
            (let cmd_parts = py_split command;
                 cmd_summary = (if cmd_parts \<noteq> [] then hd cmd_parts else ''command'');
                 target = command_target cmd_parts;
                 audio_desc = audio_description command cmd_summary target
             in Inr (Some
                  \<lparr>event_type = Some ''tool_activity'',
                   message = JStr
                     (if target_given target
                      then ''['' @ py_str e display_project_name @ ''] Running '' @ cmd_summary
                             @ '' on '' @ target_text target
                      else ''['' @ py_str e display_project_name @ ''] Running '' @ cmd_summary),
                   custom_tts = Some (py_str e display_project_name @ '', '' @ audio_desc)\<rparr>))
          else Inr (Some no_notification)
      | Inr other \<Rightarrow> Inl AttributeError)"

text \<open>Lines 681 to 698: the tool is one of the three that edit files. \<^verbatim>\<open>Path(file_path)\<close>
  raises \<^verbatim>\<open>TypeError\<close> for a value that is not a string.\<close>

definition classify_edit ::
  "env \<Rightarrow> json \<Rightarrow> json \<Rightarrow> (string \<times> json) list \<Rightarrow> py_error + notification option" where
  "classify_edit e display_project_name tool_name hook_data =
     (case py_get (hook_parameters hook_data) ''file_path'' (JStr []) of
        Inl err \<Rightarrow> Inl err
      | Inr file_path \<Rightarrow>
          (case py_any_in [''/etc/'', ''/usr/'', ''.env'', ''config'', ''secret''] file_path of
             Inl err \<Rightarrow> Inl err
           | Inr False \<Rightarrow> Inr (Some no_notification)
           | Inr True \<Rightarrow>
               (case file_path of
                  JStr fp \<Rightarrow>
                    (let file_name = path_name fp;
                         action_desc = (if tool_name = JStr ''Write'' then ''writing''
                                        else if tool_name = JStr ''MultiEdit'' then ''multi-editing''
                                        else ''editing'');
                         capitalized = (if tool_name = JStr ''Write'' then ''Writing''
                                        else if tool_name = JStr ''MultiEdit'' then ''Multi-editing''
                                        else ''Editing'')
                     in Inr (Some
                          \<lparr>event_type = Some ''tool_activity'',
                           message = JStr (''['' @ py_str e display_project_name @ ''] ''
                                           @ capitalized @ '' '' @ file_name),
                           custom_tts = Some (py_str e display_project_name @ '', ''
                                              @ action_desc @ '' '' @ file_name)\<rparr>))
                | _ \<Rightarrow> Inl TypeError)))"

text \<open>Lines 700 to 716.\<close>

definition classify_post_tool_use ::
  "env \<Rightarrow> json \<Rightarrow> (string \<times> json) list \<Rightarrow> notification" where
  "classify_post_tool_use e display_project_name hook_data =
     (let tool_response =
            dict_get hook_data ''response'' (dict_get hook_data ''tool_response'' (JObj []));
          tool_name = hook_tool_name hook_data
      in case tool_response of
           JObj d \<Rightarrow>
             if dict_get d ''type'' JNull = JStr ''error'' \<or> map_of d ''error'' \<noteq> None then
               (let error_msg =
                      dict_get d ''error'' (dict_get d ''message'' (JStr ''Unknown error''))
                in \<lparr>event_type = Some ''error'',
                    message = JStr (''['' @ py_str e display_project_name @ ''] Error in ''
                                    @ py_str e tool_name @ '': ''
                                    @ take 100 (py_str e error_msg)),
                    custom_tts = Some (py_str e display_project_name @ '', ''
                                       @ py_str e tool_name @ '' failed'')\<rparr>)
             else no_notification
         | _ \<Rightarrow> no_notification)"

text \<open>The class \<^verbatim>\<open>\w\<close> of a string pattern on code points below 256: letters, digits, the
  underscore, and the letters and numeric characters above 127.\<close>

definition is_word_char :: "char \<Rightarrow> bool" where
  "is_word_char c =
     (c \<in> set (''abcdefghijklmnopqrstuvwxyzABCDEFGHIJKLMNOPQRSTUVWXYZ0123456789_'' @
       [CHR 0xAA, CHR 0xB2, CHR 0xB3, CHR 0xB5, CHR 0xB9, CHR 0xBA,
        CHR 0xBC, CHR 0xBD, CHR 0xBE, CHR 0xC0, CHR 0xC1, CHR 0xC2,
        CHR 0xC3, CHR 0xC4, CHR 0xC5, CHR 0xC6, CHR 0xC7, CHR 0xC8,
        CHR 0xC9, CHR 0xCA, CHR 0xCB, CHR 0xCC, CHR 0xCD, CHR 0xCE,
        CHR 0xCF, CHR 0xD0, CHR 0xD1, CHR 0xD2, CHR 0xD3, CHR 0xD4,
        CHR 0xD5, CHR 0xD6, CHR 0xD8, CHR 0xD9, CHR 0xDA, CHR 0xDB,
        CHR 0xDC, CHR 0xDD, CHR 0xDE, CHR 0xDF, CHR 0xE0, CHR 0xE1,
        CHR 0xE2, CHR 0xE3, CHR 0xE4, CHR 0xE5, CHR 0xE6, CHR 0xE7,
        CHR 0xE8, CHR 0xE9, CHR 0xEA, CHR 0xEB, CHR 0xEC, CHR 0xED,
        CHR 0xEE, CHR 0xEF, CHR 0xF0, CHR 0xF1, CHR 0xF2, CHR 0xF3,
        CHR 0xF4, CHR 0xF5, CHR 0xF6, CHR 0xF8, CHR 0xF9, CHR 0xFA,
        CHR 0xFB, CHR 0xFC, CHR 0xFD, CHR 0xFE, CHR 0xFF]))"

text \<open>\<^verbatim>\<open>re.search(r"permission to use (\w+)", s)\<close>: the group of the leftmost match.\<close>

fun permission_tool :: "string \<Rightarrow> string option" where
  "permission_tool [] = None"
| "permission_tool (c # cs) =
     (let after = drop 18 (c # cs)
      in if startswith (c # cs) ''permission to use '' \<and> after \<noteq> [] \<and> is_word_char (hd after)
         then Some (takeWhile is_word_char after)
         else permission_tool cs)"

text \<open>Lines 732 to 757. \<^verbatim>\<open>notif_type.lower()\<close> raises \<^verbatim>\<open>AttributeError\<close> and
  \<^verbatim>\<open>re.search\<close> raises \<^verbatim>\<open>TypeError\<close> for a value that is not a string.\<close>

definition classify_notification ::
  "env \<Rightarrow> json \<Rightarrow> (string \<times> json) list \<Rightarrow> py_error + notification" where
  "classify_notification e display_project_name hook_data =
     (let notif_type = dict_get hook_data ''notification_type'' (JStr []);
          raw_message = dict_get hook_data ''message'' (JStr [])
      in case notif_type of
           JStr nt \<Rightarrow>
             if contains (py_lower nt) ''error'' then
               Inr \<lparr>event_type = Some ''error'',
                    message = dict_get hook_data ''message'' (JStr ''An error occurred''),
                    custom_tts = None\<rparr>
             else
               (case py_in ''permission to use'' raw_message of
                  Inl err \<Rightarrow> Inl err
                | Inr False \<Rightarrow>
                    Inr \<lparr>event_type = Some ''input_needed'',
                         message = JStr (''['' @ py_str e display_project_name @ ''] Input needed''),
                         custom_tts = Some (py_str e display_project_name @ '', input needed'')\<rparr>
                | Inr True \<Rightarrow>
                    (case raw_message of
                       JStr rm \<Rightarrow>
                         (case permission_tool rm of
                            Some tool_requested \<Rightarrow>
                              Inr \<lparr>event_type = Some ''input_needed'',
                                   message = JStr (''['' @ py_str e display_project_name
                                                   @ ''] Permission needed for '' @ tool_requested),
                                   custom_tts = Some (py_str e display_project_name
                                                      @ '', needs permission for '' @ tool_requested)\<rparr>
                          | None \<Rightarrow>
                              Inr \<lparr>event_type = Some ''input_needed'',
                                   message = JStr (''['' @ py_str e display_project_name @ ''] '' @ rm),
                                   custom_tts = Some (py_str e display_project_name @ '', '' @ rm)\<rparr>)
                     | _ \<Rightarrow> Inl TypeError))
         | _ \<Rightarrow> Inl AttributeError)"

text \<open>Lines 575 and 616 to 757 of \<^verbatim>\<open>handle_hook\<close>: the classification. The display
  project name, which lines 586 to 614 compute from the session id and the working
  directory of the hook (with \<^verbatim>\<open>resolve_project_name\<close> and
  \<^verbatim>\<open>apply_project_name_replacement\<close>, and with exceptions of their own), is a parameter
  here; it is a JSON value, since a replacement can be any value of the replacements
  document.\<close>

definition classify_hook ::
  "env \<Rightarrow> json \<Rightarrow> (string \<times> json) list \<Rightarrow> py_error + notification option" where
  "classify_hook e display_project_name hook_data =
     (if hook_type hook_data = JStr ''PreToolUse'' then
        (let tool_name = hook_tool_name hook_data
         in if tool_name = JStr ''Bash'' then classify_bash e display_project_name hook_data
            else if tool_name \<in> set [JStr ''Write'', JStr ''MultiEdit'', JStr ''Edit'']
            then classify_edit e display_project_name tool_name hook_data
            else Inr (Some no_notification))
      else if hook_type hook_data = JStr ''PostToolUse'' then
        Inr (Some (classify_post_tool_use e display_project_name hook_data))
      else if hook_type hook_data = JStr ''Stop'' then
        Inr (Some \<lparr>event_type = Some ''execution_complete'',
                   message = JStr (''['' @ py_str e display_project_name @ ''] Task complete''),
                   custom_tts = Some (py_str e display_project_name
                                      @ '', task completed successfully'')\<rparr>)
      else if hook_type hook_data = JStr ''SubagentStop'' then
        Inr (Some \<lparr>event_type = Some ''subagent_done'',
                   message = JStr (''['' @ py_str e display_project_name @ ''] Subagent finished''),
                   custom_tts = Some (py_str e display_project_name @ '', sub agent finished'')\<rparr>)
      else if hook_type hook_data = JStr ''PreCompact'' then
        Inr (Some \<lparr>event_type = Some ''compaction'',
                   message = JStr ''Context compaction starting'',
                   custom_tts = None\<rparr>)
      else if hook_type hook_data = JStr ''Notification'' then
        (case classify_notification e display_project_name hook_data of
           Inl err \<Rightarrow> Inl err
         | Inr n \<Rightarrow> Inr (Some n))
      else Inr (Some no_notification))"

subsection \<open>Sending the notification\<close>

text \<open>\<^verbatim>\<open>s.split(sep, 1)[-1]\<close> for a string that contains \<open>sep\<close>: what follows its first
  occurrence.\<close>

fun after_first :: "string \<Rightarrow> string \<Rightarrow> string" where
  "after_first [] sep = []"
| "after_first (c # cs) sep =
     (if startswith (c # cs) sep then drop (length sep) (c # cs) else after_first cs sep)"

text \<open>Line 764. \<^verbatim>\<open>'] ' in message\<close> is the test of \<open>py_in\<close>; a list or a dict that passes it
  has no \<^verbatim>\<open>split\<close>.\<close>

definition clean_message :: "json \<Rightarrow> py_error + json" where
  "clean_message msg =
     (case py_in ''] '' msg of
        Inl err \<Rightarrow> Inl err
      | Inr False \<Rightarrow> Inr msg
      | Inr True \<Rightarrow>
          (case msg of
             JStr m \<Rightarrow> Inr (JStr (after_first m ''] ''))
           | _ \<Rightarrow> Inl AttributeError))"

text \<open>Lines 759 to 778. Showing the notification and playing the sound catch their own
  exceptions.\<close>

definition send_notification ::
  "handler \<Rightarrow> json \<Rightarrow> notification \<Rightarrow> world \<Rightarrow> (py_error + unit) \<times> world" where
  "send_notification h display_project_name n w =
     (case event_type n of
        None \<Rightarrow> (Inr (), w)
      | Some ev \<Rightarrow>
          if ev \<noteq> [] \<and> py_truthy (message n) then
            (case clean_message (message n) of
               Inl err \<Rightarrow> (Inl err, w)
             | Inr cleaned \<Rightarrow>
                 (let w1 = record_call (ShowNotification display_project_name cleaned) w;
                      (sound_file, w2) =
                        get_notification_sound h ev
                          (case custom_tts n of None \<Rightarrow> [] | Some t \<Rightarrow> t) w1
                  in case sound_file of
                       None \<Rightarrow> (Inr (), w2)
                     | Some f \<Rightarrow> (Inr (), play_sound_file f w2)))
          else (Inr (), w))"

text \<open>\<^verbatim>\<open>handle_hook\<close> from line 616 on, for a given display project name.\<close>

definition handle_hook ::
  "handler \<Rightarrow> env \<Rightarrow> json \<Rightarrow> (string \<times> json) list \<Rightarrow> world \<Rightarrow> (py_error + unit) \<times> world" where
  "handle_hook h e display_project_name hook_data w =
     (case classify_hook e display_project_name hook_data of
        Inl err \<Rightarrow> (Inl err, w)
      | Inr None \<Rightarrow> (Inr (), w)
      | Inr (Some n) \<Rightarrow> send_notification h display_project_name n w)"

subsection \<open>Concrete inputs\<close>

text \<open>A cache document with one entry written long ago and one written a moment ago,
  and a world that holds it.\<close>

definition old_entry :: json where
  "old_entry = JObj [(''project_name'', JStr ''alpha''), (''timestamp'', JNum 1000),
                     (''project_path'', JStr ''/home/u/code/alpha''),
                     (''claude_folder'', JStr ''-home-u-code-alpha'')]"

definition new_entry :: json where
  "new_entry = JObj [(''project_name'', JStr ''beta''), (''timestamp'', JNum 2000000),
                     (''project_path'', JStr ''/home/u/code/beta''),
                     (''claude_folder'', JStr ''-home-u-code-beta'')]"

definition example_world :: world where
  "example_world =
     \<lparr>cache_file = Doc (JObj [(''s-old'', old_entry), (''s-new'', new_entry)]),
      replacements_file = Missing, sound_files = [], calls = []\<rparr>"

text \<open>Surroundings in which nothing fails: the session file of \<open>s-x\<close> lies in one project
  folder, paths resolve to their own parts, and both files can be written.\<close>

definition example_env :: env where
  "example_env =
     \<lparr>time_prune = 2000100, time_store = 2000101,
      glob_projects = (\<lambda>f. if f = ''s-x.jsonl'' then Some [''-home-u-code-agent-zero'']
                             else Some []),
      resolve_path = (\<lambda>s. Some (path_parts s)),
      cache_writable = True, replacements_writable = True,
      getcwd = ''/home/u'', str_of = (\<lambda>x. ''?'')\<rparr>"




text \<open>A handler whose provider synthesises every text, and one whose provider fails on
  every text.\<close>

definition working_provider :: provider where
  "working_provider =
     \<lparr>format = ''mp3'', md5_hexdigest = (\<lambda>t. ''0123456789abcdef0123456789abcdef''),
      synthesis_ok = (\<lambda>t. True), pydub_importable = True, export_ok = True,
      sound_writable = True\<rparr>"

definition working_handler :: handler where
  "working_handler =
     \<lparr>USE_TTS = True, TTS_PROVIDER = ''kokoro'', tts_provider = Some working_provider\<rparr>"

definition failing_provider :: provider where
  "failing_provider =
     \<lparr>format = ''mp3'', md5_hexdigest = (\<lambda>t. ''0123456789abcdef0123456789abcdef''),
      synthesis_ok = (\<lambda>t. False), pydub_importable = True, export_ok = True,
      sound_writable = True\<rparr>"

definition failing_handler :: handler where
  "failing_handler =
     \<lparr>USE_TTS = True, TTS_PROVIDER = ''kokoro'', tts_provider = Some failing_provider\<rparr>"

definition empty_world :: world where
  "empty_world =
     \<lparr>cache_file = Missing, replacements_file = Missing, sound_files = [], calls = []\<rparr>"

text \<open>A hook that announces a shell command.\<close>

definition bash_hook :: "string \<Rightarrow> (string \<times> json) list" where
  "bash_hook command =
     [(''event'', JStr ''PreToolUse''), (''tool'', JStr ''Bash''),
      (''parameters'', JObj [(''command'', JStr command)])]"

text \<open>A handler with speech switched off, and three hooks.\<close>

definition muted_handler :: handler where
  "muted_handler = \<lparr>USE_TTS = False, TTS_PROVIDER = ''kokoro'', tts_provider = None\<rparr>"

definition stop_hook :: "(string \<times> json) list" where
  "stop_hook = [(''event'', JStr ''Stop'')]"

definition precompact_hook :: "(string \<times> json) list" where
  "precompact_hook = [(''event'', JStr ''PreCompact'')]"

definition error_notification_hook :: "(string \<times> json) list" where
  "error_notification_hook =
     [(''event'', JStr ''Notification''), (''notification_type'', JStr ''api_error''),
      (''message'', JStr ''Rate limit reached'')]"

section \<open>Verification\<close>

subsection \<open>Splitting and joining\<close>

lemma join_split_on: "join [c] (split_on c s) = s"
proof (induction s)
  case Nil
  show ?case by simp
next
  case (Cons x xs)
  show ?case
  proof (cases "x = c")
    case True
    then show ?thesis using Cons by (cases "split_on c xs") auto
  next
    case False
    then show ?thesis using Cons
      by (cases "split_on c xs"; cases "tl (split_on c xs)") auto
  qed
qed

lemma split_on_no_sep: "c \<notin> set s \<Longrightarrow> split_on c s = [s]"
  by (induction s) auto

lemma split_on_append: "c \<notin> set a \<Longrightarrow> split_on c (a @ c # r) = a # split_on c r"
  by (induction a) (auto split: list.splits)

lemma split_on_join:
  "segs \<noteq> [] \<Longrightarrow> \<forall>s \<in> set segs. c \<notin> set s \<Longrightarrow> split_on c (join [c] segs) = segs"
proof (induction segs rule: induct_list012)
  case 1
  then show ?case by simp
next
  case (2 x)
  then show ?case by (simp add: split_on_no_sep)
next
  case (3 x y ys)
  then show ?case by (simp add: split_on_append)
qed

lemma join_split_on_join:
  assumes "\<forall>s \<in> set segs. c \<notin> set s"
  shows "join sep (split_on c (join [c] segs)) = join sep segs"
proof (cases "segs = []")
  case True
  then show ?thesis by simp
next
  case False
  then show ?thesis using assms by (simp add: split_on_join)
qed

subsection \<open>Project folder names\<close>

text \<open>
  Claim C8. For every absolute path whose segments hold neither \<open>-\<close> nor \<open>/\<close> (empty
  segments allowed), decoding its encoded folder name gives the path back, and encoding
  the decoded path gives the folder name back. A folder name that does not start with
  the marker \<open>-\<close> is not decoded.
\<close>

theorem decode_encode_roundtrip:
  "((\<forall>seg \<in> set segs. CHR ''-'' \<notin> set seg \<and> CHR ''/'' \<notin> set seg) \<longrightarrow>
      decode_project_folder_name (encode_segments_spec segs) = Some (path_of_segments segs)
      \<and> encode_path_spec (path_of_segments segs) = encode_segments_spec segs)
   \<and> (\<not> startswith folder_name ''-'' \<longrightarrow> decode_project_folder_name folder_name = None)"
proof (intro conjI impI)
  assume a: "\<forall>seg \<in> set segs. CHR ''-'' \<notin> set seg \<and> CHR ''/'' \<notin> set seg"
  then have "join ''/'' (split_on (CHR ''-'') (join ''-'' segs)) = join ''/'' segs"
    using join_split_on_join [of segs "CHR ''-''" "''/''"] by simp
  then show "decode_project_folder_name (encode_segments_spec segs) = Some (path_of_segments segs)"
    by (simp add: decode_project_folder_name_def encode_segments_spec_def
        path_of_segments_def startswith_def)
  from a have "join ''-'' (split_on (CHR ''/'') (join ''/'' segs)) = join ''-'' segs"
    using join_split_on_join [of segs "CHR ''/''" "''-''"] by simp
  then show "encode_path_spec (path_of_segments segs) = encode_segments_spec segs"
    by (simp add: encode_path_spec_def encode_segments_spec_def path_of_segments_def)
next
  assume "\<not> startswith folder_name ''-''"
  then show "decode_project_folder_name folder_name = None"
    by (simp add: decode_project_folder_name_def)
qed

theorem decode_encode_roundtrip_witness:
  "decode_project_folder_name ''-Users-helmi-code-ccnotify'' = Some ''/Users/helmi/code/ccnotify''
   \<and> encode_path_spec ''/Users/helmi/code/ccnotify'' = ''-Users-helmi-code-ccnotify''
   \<and> decode_project_folder_name ''Users-helmi'' = None"
  using decode_encode_roundtrip
    [of "[''Users'', ''helmi'', ''code'', ''ccnotify'']" "''Users-helmi''"]
  by (simp add: encode_segments_spec_def path_of_segments_def startswith_def)

subsection \<open>Pruning the project cache\<close>



lemma expiry_seconds_eq: "expiry_seconds = 604800"
  by (simp add: expiry_seconds_def CACHE_EXPIRY_DAYS_def)



subsection \<open>Resolving the project name: the cached entry\<close>

lemma resolve_cached:
  assumes "clean_old_cache_entries (time_prune e) (load_project_cache w) = Inr cache"
    and "map_of cache session_id = Some (JObj entry)"
    and "map_of entry ''project_name'' = Some cached_name"
  shows "resolve_project_name e session_id cwd w =
     (if py_truthy cwd \<and>
         (\<exists>p. map_of entry ''project_path'' = Some p \<and> \<not> is_cwd_under_project e cwd p)
      then (let (name, w1) = resolve_from_session_file e session_id cache w in (Inr name, w1))
      else (Inr cached_name, w))"
  using assms by (auto simp: resolve_project_name_def split: option.splits)




lemma example_prune:
  "clean_old_cache_entries (time_prune example_env) (load_project_cache example_world)
     = Inr [(''s-new'', new_entry)]"
  by (simp add: example_world_def example_env_def load_project_cache_def
      clean_old_cache_entries_def entry_timestamp_def dict_get_def expiry_seconds_eq
      old_entry_def new_entry_def)



text \<open>
  Claim C10. When the cached name is returned (the session id has an entry in the pruned
  cache, and \<open>cwd\<close> is absent, or the entry stores no project path, or the stored path
  passes the test), the world after the call is the world before it: the cache file is
  not rewritten, so entries pruned in memory stay in the file and the timestamp of the
  entry is the old one, the replacements document is the same, and neither
  \<^verbatim>\<open>save_project_cache\<close> nor \<^verbatim>\<open>auto_add_project_to_replacements\<close> was called. For any
  \<open>cwd\<close>, a call that changes the list of calls went through the search for the session
  file.
\<close>

theorem cache_hit_persists_nothing:
  assumes "clean_old_cache_entries (time_prune e) (load_project_cache w) = Inr cache"
    and "map_of cache session_id = Some (JObj entry)"
    and "map_of entry ''project_name'' = Some cached_name"
    and "\<not> py_truthy cwd \<or> map_of entry ''project_path'' = None
         \<or> (\<exists>p. map_of entry ''project_path'' = Some p \<and> is_cwd_under_project e cwd p)"
  shows "fst (resolve_project_name e session_id cwd w) = Inr cached_name
       \<and> snd (resolve_project_name e session_id cwd w) = w
       \<and> cache_file (snd (resolve_project_name e session_id cwd w)) = cache_file w
       \<and> replacements_file (snd (resolve_project_name e session_id cwd w)) = replacements_file w
       \<and> calls (snd (resolve_project_name e session_id cwd w)) = calls w
       \<and> (\<forall>cwd'. calls (snd (resolve_project_name e session_id cwd' w)) \<noteq> calls w \<longrightarrow>
            resolve_project_name e session_id cwd' w
              = (let (name, w1) = resolve_from_session_file e session_id cache w
                 in (Inr name, w1)))"
proof -
  have hit: "resolve_project_name e session_id cwd w = (Inr cached_name, w)"
    using assms(4) by (auto simp: resolve_cached [OF assms(1-3)])
  have other: "calls (snd (resolve_project_name e session_id cwd' w)) \<noteq> calls w \<longrightarrow>
      resolve_project_name e session_id cwd' w
        = (let (name, w1) = resolve_from_session_file e session_id cache w in (Inr name, w1))"
    for cwd'
    by (simp add: resolve_cached [OF assms(1-3)])
  show ?thesis using hit other by simp
qed

theorem cache_hit_persists_nothing_witness:
  "fst (resolve_project_name example_env ''s-new'' (JStr ''/home/u/code/beta'') example_world)
     = Inr (JStr ''beta'')
   \<and> snd (resolve_project_name example_env ''s-new'' (JStr ''/home/u/code/beta'') example_world)
     = example_world
   \<and> cache_file (snd (resolve_project_name example_env ''s-new'' (JStr ''/home/u/code/beta'')
        example_world)) = Doc (JObj [(''s-old'', old_entry), (''s-new'', new_entry)])"
proof -
  have entry: "map_of [(''s-new'', new_entry)] ''s-new''
      = Some (JObj [(''project_name'', JStr ''beta''), (''timestamp'', JNum 2000000),
                    (''project_path'', JStr ''/home/u/code/beta''),
                    (''claude_folder'', JStr ''-home-u-code-beta'')])"
    by (simp add: new_entry_def)
  have name: "map_of [(''project_name'', JStr ''beta''), (''timestamp'', JNum 2000000),
                    (''project_path'', JStr ''/home/u/code/beta''),
                    (''claude_folder'', JStr ''-home-u-code-beta'')] ''project_name''
      = Some (JStr ''beta'')"
    by simp
  have under: "is_cwd_under_project example_env (JStr ''/home/u/code/beta'')
      (JStr ''/home/u/code/beta'')"
    by code_simp
  have hit: "\<not> py_truthy (JStr ''/home/u/code/beta'')
      \<or> map_of [(''project_name'', JStr ''beta''), (''timestamp'', JNum 2000000),
                    (''project_path'', JStr ''/home/u/code/beta''),
                    (''claude_folder'', JStr ''-home-u-code-beta'')] ''project_path'' = None
      \<or> (\<exists>p. map_of [(''project_name'', JStr ''beta''), (''timestamp'', JNum 2000000),
                    (''project_path'', JStr ''/home/u/code/beta''),
                    (''claude_folder'', JStr ''-home-u-code-beta'')] ''project_path'' = Some p
            \<and> is_cwd_under_project example_env (JStr ''/home/u/code/beta'') p)"
    using under by simp
  from cache_hit_persists_nothing [OF example_prune entry name hit]
  show ?thesis by (simp add: example_world_def)
qed

subsection \<open>Resolving the project name: no exception\<close>






subsection \<open>The sound cache\<close>

lemma sound_result_name:
  "get_notification_sound h ev txt w = (r, w1) \<Longrightarrow> tts_provider h = Some p \<Longrightarrow>
     r = Some f \<Longrightarrow> f = sound_file_name h p ev txt"
  by (auto simp: get_notification_sound_def Let_def split: if_splits prod.splits)

lemma sound_cache_hit:
  "USE_TTS h \<Longrightarrow> tts_provider h = Some p \<Longrightarrow>
     sound_file_name h p ev txt \<in> set (sound_files w) \<Longrightarrow>
     get_notification_sound h ev txt w = (Some (sound_file_name h p ev txt), w)"
  by (simp add: get_notification_sound_def)

lemma generate_calls:
  "generate p t f w = (b, w1) \<Longrightarrow> calls w1 = calls w @ [GenerateSound t f]"
  by (auto simp: generate_def Let_def record_call_def add_sound_file_def split: if_splits)

lemma sound_generate_count:
  "get_notification_sound h ev txt w = (r, w1) \<Longrightarrow>
     length (filter is_generate (calls w1)) \<le> length (filter is_generate (calls w)) + 1"
  by (auto simp: get_notification_sound_def Let_def
      split: if_splits option.splits prod.splits dest!: generate_calls)

lemma generate_writes:
  "synthesis_ok p t \<Longrightarrow>
     (if format p = ''mp3'' then pydub_importable p \<and> export_ok p else sound_writable p) \<Longrightarrow>
     generate p t f w = (True, add_sound_file f (record_call (GenerateSound t f) w))"
  by (simp add: generate_def Let_def)

lemma sound_first_call:
  assumes "USE_TTS h" "tts_provider h = Some p" "synthesis_ok p (text_to_speak ev txt)"
    "if format p = ''mp3'' then pydub_importable p \<and> export_ok p else sound_writable p"
    "get_notification_sound h ev txt w = (r, w1)"
  shows "r = Some (sound_file_name h p ev txt)
     \<and> sound_file_name h p ev txt \<in> set (sound_files w1)"
  using assms(5) assms(1,2) generate_writes [OF assms(3,4)]
  by (auto simp: get_notification_sound_def Let_def add_sound_file_def record_call_def
      split: if_splits)

text \<open>
  Claim C5, as amended. Take two calls of \<^verbatim>\<open>get_notification_sound\<close> with the same
  category and text, the second in the world the first one left. Every path either call
  returns is the one name \<open>{provider}_{category}_{first 16 characters of the digest of
  the spoken text}{extension}\<close>, so two returned paths are equal. When the file of that
  name is there after the first call, the second call returns it and changes nothing, and
  \<^verbatim>\<open>generate\<close> was called at most once in the two calls. The file is there after the
  first call when the synthesis of the text succeeds and the file is written under the
  requested name (for MP3: \<^verbatim>\<open>pydub\<close> can be imported and the export succeeds); then both
  calls return the path.
\<close>

theorem sound_cache_idempotent:
  assumes "get_notification_sound h ev txt w = (r1, w1)"
    and "get_notification_sound h ev txt w1 = (r2, w2)"
    and "tts_provider h = Some p"
  shows "(\<forall>f. r1 = Some f \<or> r2 = Some f \<longrightarrow>
            f = TTS_PROVIDER h @ ''_'' @ ev @ ''_''
                  @ take 16 (md5_hexdigest p (text_to_speak ev txt)) @ get_file_extension p)
       \<and> (\<forall>f1 f2. r1 = Some f1 \<and> r2 = Some f2 \<longrightarrow> f1 = f2)
       \<and> (USE_TTS h \<and> sound_file_name h p ev txt \<in> set (sound_files w1) \<longrightarrow>
            r2 = Some (sound_file_name h p ev txt) \<and> w2 = w1
            \<and> length (filter is_generate (calls w2))
                 \<le> length (filter is_generate (calls w)) + 1)
       \<and> (USE_TTS h \<and> synthesis_ok p (text_to_speak ev txt)
            \<and> (if format p = ''mp3'' then pydub_importable p \<and> export_ok p
                else sound_writable p) \<longrightarrow>
            r1 = Some (sound_file_name h p ev txt) \<and> r2 = r1 \<and> w2 = w1
            \<and> length (filter is_generate (calls w2))
                 \<le> length (filter is_generate (calls w)) + 1)"
proof (intro conjI allI impI)
  fix f
  assume "r1 = Some f \<or> r2 = Some f"
  then have "f = sound_file_name h p ev txt"
    using sound_result_name [OF assms(1) assms(3)] sound_result_name [OF assms(2) assms(3)]
    by blast
  then show "f = TTS_PROVIDER h @ ''_'' @ ev @ ''_''
      @ take 16 (md5_hexdigest p (text_to_speak ev txt)) @ get_file_extension p"
    by (simp add: sound_file_name_def get_cache_key_def)
next
  fix f1 f2
  assume "r1 = Some f1 \<and> r2 = Some f2"
  then show "f1 = f2"
    using sound_result_name [OF assms(1) assms(3)] sound_result_name [OF assms(2) assms(3)]
    by simp
next
  assume a: "USE_TTS h \<and> sound_file_name h p ev txt \<in> set (sound_files w1)"
  then have hit: "get_notification_sound h ev txt w1 = (Some (sound_file_name h p ev txt), w1)"
    using sound_cache_hit [OF _ assms(3)] by blast
  with assms(2) show "r2 = Some (sound_file_name h p ev txt)" and "w2 = w1"
    by simp_all
  then show "length (filter is_generate (calls w2))
      \<le> length (filter is_generate (calls w)) + 1"
    using sound_generate_count [OF assms(1)] by simp
next
  assume a: "USE_TTS h \<and> synthesis_ok p (text_to_speak ev txt)
      \<and> (if format p = ''mp3'' then pydub_importable p \<and> export_ok p else sound_writable p)"
  then have first: "r1 = Some (sound_file_name h p ev txt)
      \<and> sound_file_name h p ev txt \<in> set (sound_files w1)"
    using sound_first_call [OF _ assms(3) _ _ assms(1)] by blast
  then show "r1 = Some (sound_file_name h p ev txt)"
    by simp
  from a first have hit:
    "get_notification_sound h ev txt w1 = (Some (sound_file_name h p ev txt), w1)"
    using sound_cache_hit [OF _ assms(3)] by blast
  with assms(2) first show "r2 = r1" and "w2 = w1"
    by simp_all
  then show "length (filter is_generate (calls w2))
      \<le> length (filter is_generate (calls w)) + 1"
    using sound_generate_count [OF assms(1)] by simp
qed

theorem sound_cache_idempotent_witness:
  "get_notification_sound working_handler ''error'' ''alpha, Bash failed'' empty_world
     = (Some ''kokoro_error_0123456789abcdef.mp3'',
        empty_world\<lparr>sound_files := [''kokoro_error_0123456789abcdef.mp3''],
                      calls := [GenerateSound ''alpha, Bash failed''
                                  ''kokoro_error_0123456789abcdef.mp3'']\<rparr>)
   \<and> get_notification_sound working_handler ''error'' ''alpha, Bash failed''
       (empty_world\<lparr>sound_files := [''kokoro_error_0123456789abcdef.mp3''],
                      calls := [GenerateSound ''alpha, Bash failed''
                                  ''kokoro_error_0123456789abcdef.mp3'']\<rparr>)
     = (Some ''kokoro_error_0123456789abcdef.mp3'',
        empty_world\<lparr>sound_files := [''kokoro_error_0123456789abcdef.mp3''],
                      calls := [GenerateSound ''alpha, Bash failed''
                                  ''kokoro_error_0123456789abcdef.mp3'']\<rparr>)"
proof -
  let ?w1 = "empty_world\<lparr>sound_files := [''kokoro_error_0123456789abcdef.mp3''],
                      calls := [GenerateSound ''alpha, Bash failed''
                                  ''kokoro_error_0123456789abcdef.mp3'']\<rparr>"
  have first: "get_notification_sound working_handler ''error'' ''alpha, Bash failed'' empty_world
      = (Some ''kokoro_error_0123456789abcdef.mp3'', ?w1)"
    by (simp add: get_notification_sound_def working_handler_def working_provider_def
        sound_file_name_def get_cache_key_def get_file_extension_def text_to_speak_def
        generate_def record_call_def add_sound_file_def empty_world_def Let_def)
  obtain r2 w2 where second:
    "get_notification_sound working_handler ''error'' ''alpha, Bash failed'' ?w1 = (r2, w2)"
    by (cases "get_notification_sound working_handler ''error'' ''alpha, Bash failed'' ?w1")
  have p: "tts_provider working_handler = Some working_provider"
    by (simp add: working_handler_def)
  have ok: "USE_TTS working_handler
      \<and> synthesis_ok working_provider (text_to_speak ''error'' ''alpha, Bash failed'')
      \<and> (if format working_provider = ''mp3''
          then pydub_importable working_provider \<and> export_ok working_provider
          else sound_writable working_provider)"
    by (simp add: working_handler_def working_provider_def)
  from sound_cache_idempotent [OF first second p] ok
  have "r2 = Some ''kokoro_error_0123456789abcdef.mp3'' \<and> w2 = ?w1"
    by blast
  with first second show ?thesis by simp
qed

text \<open>The claim as it stands fails when the synthesis fails: nothing is cached, and the
  second call invokes \<^verbatim>\<open>generate\<close> again.\<close>

theorem sound_cache_counterexample:
  "filter is_generate
     (calls (snd (get_notification_sound failing_handler ''error'' ''alpha, Bash failed''
        (snd (get_notification_sound failing_handler ''error'' ''alpha, Bash failed''
           empty_world)))))
   = [GenerateSound ''alpha, Bash failed'' ''kokoro_error_0123456789abcdef.mp3'',
      GenerateSound ''alpha, Bash failed'' ''kokoro_error_0123456789abcdef.mp3'']"
  by (simp add: get_notification_sound_def failing_handler_def failing_provider_def
      sound_file_name_def get_cache_key_def get_file_extension_def text_to_speak_def
      generate_def record_call_def empty_world_def Let_def)

subsection \<open>Classifying shell commands\<close>

lemma startswith_append: "startswith (b @ c) b"
  by (simp add: startswith_def)

lemma contains_prefix: "contains (b @ c) b"
proof (cases "b @ c")
  case Nil
  then show ?thesis by simp
next
  case (Cons x xs)
  have "startswith (x # xs) b"
    using startswith_append [of b c] Cons by simp
  then show ?thesis using Cons by simp
qed

lemma contains_appendI: "contains s sub \<Longrightarrow> contains (a @ s) sub"
  by (induction a) auto

lemma strip_rm: "py_strip ''rm important.txt'' = ''rm important.txt''"
  by (simp add: py_strip_def is_space_def)

lemma split_rm: "py_split ''rm important.txt'' = [''rm'', ''important.txt'']"
  by (simp add: py_split_def is_space_def)

lemma not_safe_rm:
  "\<not> (\<exists>pre \<in> set safe_prefixes. startswith (py_strip ''rm important.txt'') pre)"
  by (simp add: strip_rm safe_prefixes_def startswith_def)

lemma dangerous_rm: "\<exists>marker \<in> set dangerous_prefixes. contains ''rm important.txt'' marker"
  by (simp add: dangerous_prefixes_def startswith_def)

lemma target_rm: "command_target [''rm'', ''important.txt''] = Some ''important.txt''"
  by (simp add: command_target_def startswith_def)

lemma audio_rm:
  "audio_description ''rm important.txt'' ''rm'' (Some ''important.txt'')
     = ''removing important.txt''"
  by (simp add: audio_description_def tts_descriptions_def target_given_def target_text_def
      startswith_def)

lemma bash_hook_fields:
  "hook_type (bash_hook c) = JStr ''PreToolUse''"
  "hook_tool_name (bash_hook c) = JStr ''Bash''"
  "py_get (hook_parameters (bash_hook c)) ''command'' (JStr []) = Inr (JStr c)"
  by (simp_all add: bash_hook_def hook_type_def hook_tool_name_def hook_parameters_def
      py_get_def dict_get_def)

text \<open>
  Claim C7. For every Pre-tool-use hook whose tool is \<open>Bash\<close> and whose command is exactly
  \<open>rm important.txt\<close>, and every display project name, the classification gives the
  category \<open>tool_activity\<close>, the display message \<open>[name] Running rm on important.txt\<close>,
  which contains \<open>Running rm on important.txt\<close>, and the TTS text
  \<open>name, removing important.txt\<close>, which contains \<open>removing important.txt\<close>.
\<close>

theorem rm_important_classified:
  assumes "hook_type hook_data = JStr ''PreToolUse''"
    and "hook_tool_name hook_data = JStr ''Bash''"
    and "py_get (hook_parameters hook_data) ''command'' (JStr [])
           = Inr (JStr ''rm important.txt'')"
  shows "classify_hook e dpn hook_data
      = Inr (Some \<lparr>event_type = Some ''tool_activity'',
                    message = JStr (''['' @ py_str e dpn @ ''] Running rm on important.txt''),
                    custom_tts = Some (py_str e dpn @ '', removing important.txt'')\<rparr>)
     \<and> contains (''['' @ py_str e dpn @ ''] Running rm on important.txt'')
          ''Running rm on important.txt''
     \<and> contains (py_str e dpn @ '', removing important.txt'') ''removing important.txt''"
proof (intro conjI)
  show "classify_hook e dpn hook_data
      = Inr (Some \<lparr>event_type = Some ''tool_activity'',
                    message = JStr (''['' @ py_str e dpn @ ''] Running rm on important.txt''),
                    custom_tts = Some (py_str e dpn @ '', removing important.txt'')\<rparr>)"
    using assms not_safe_rm dangerous_rm
    by (simp add: classify_hook_def classify_bash_def split_rm target_rm audio_rm
        target_given_def target_text_def)
  have "contains (''['' @ py_str e dpn @ ''] '' @ ''Running rm on important.txt'' @ [])
      ''Running rm on important.txt''"
    by (intro contains_appendI contains_prefix)
  then show "contains (''['' @ py_str e dpn @ ''] Running rm on important.txt'')
      ''Running rm on important.txt''"
    by simp
  have "contains (py_str e dpn @ '', '' @ ''removing important.txt'' @ [])
      ''removing important.txt''"
    by (intro contains_appendI contains_prefix)
  then show "contains (py_str e dpn @ '', removing important.txt'') ''removing important.txt''"
    by simp
qed

theorem rm_important_classified_witness:
  "classify_hook example_env (JStr ''alpha'') (bash_hook ''rm important.txt'')
     = Inr (Some \<lparr>event_type = Some ''tool_activity'',
                   message = JStr ''[alpha] Running rm on important.txt'',
                   custom_tts = Some ''alpha, removing important.txt''\<rparr>)"
  using rm_important_classified
    [OF bash_hook_fields(1) bash_hook_fields(2) bash_hook_fields(3),
     of example_env "JStr ''alpha''"]
  by (simp add: py_str_def)

lemma dropWhile_first: "xs \<noteq> [] \<Longrightarrow> \<not> P (hd xs) \<Longrightarrow> dropWhile P xs = xs"
  by (cases xs) auto

lemma strip_keeps_prefix:
  assumes "startswith s p" "p \<noteq> []" "\<forall>c \<in> set p. \<not> is_space c"
  shows "startswith (py_strip s) p"
proof -
  from assms(1) have s: "s = p @ drop (length p) s"
    by (metis append_take_drop_id startswith_def)
  define r where "r = drop (length p) s"
  have spr: "s = p @ r" using s r_def by simp
  have "\<not> is_space (hd (p @ r))" using assms(2,3) by (cases p) auto
  then have l: "dropWhile is_space (p @ r) = p @ r"
    using assms(2) by (intro dropWhile_first) auto
  have "\<not> is_space (hd (rev p))" using assms(2,3) by (simp add: hd_rev)
  then have rp: "dropWhile is_space (rev p) = rev p"
    using assms(2) by (intro dropWhile_first) auto
  have "\<exists>x. dropWhile is_space (rev r @ rev p) = x @ rev p"
    by (auto simp: dropWhile_append rp)
  then obtain x where "dropWhile is_space (rev (p @ r)) = x @ rev p" by auto
  then have "rev (dropWhile is_space (rev (p @ r))) = p @ rev x"
    by simp
  then have "py_strip s = p @ rev x"
    by (simp only: py_strip_def spr l)
  then show ?thesis by (simp add: startswith_def)
qed

lemma safe_prefix_strip:
  "\<exists>pre \<in> set safe_prefixes. startswith command pre \<Longrightarrow>
   \<exists>pre \<in> set safe_prefixes. startswith (py_strip command) pre"
proof -
  assume "\<exists>pre \<in> set safe_prefixes. startswith command pre"
  then obtain pre where p: "pre \<in> set safe_prefixes" "startswith command pre" by blast
  from p(1) have "pre \<noteq> [] \<and> (\<forall>c \<in> set pre. \<not> is_space c)"
    by (auto simp: safe_prefixes_def is_space_def)
  with p show ?thesis using strip_keeps_prefix by blast
qed

lemma sound_calls:
  "get_notification_sound h ev txt w = (r, w1) \<Longrightarrow> \<exists>rest. calls w1 = calls w @ rest"
  by (auto simp: get_notification_sound_def Let_def generate_def record_call_def add_sound_file_def
      split: if_splits option.splits prod.splits)

lemma play_calls: "\<exists>rest. calls (play_sound_file f w) = calls w @ rest"
  by (simp add: play_sound_file_def record_call_def)

lemma send_notification_shows:
  assumes "event_type n = Some ev" "ev \<noteq> []" "message n = JStr m" "m \<noteq> []"
  shows "\<exists>cleaned rest. fst (send_notification h dpn n w) = Inr ()
     \<and> calls (snd (send_notification h dpn n w)) = calls w @ ShowNotification dpn (JStr cleaned) # rest"
proof -
  have "\<exists>cleaned. clean_message (JStr m) = Inr (JStr cleaned)"
    by (cases "contains m ''] ''") (simp_all add: clean_message_def py_in_def)
  then obtain cleaned where c: "clean_message (JStr m) = Inr (JStr cleaned)"
    by blast
  define w1 where "w1 = record_call (ShowNotification dpn (JStr cleaned)) w"
  obtain sf w2 where g: "get_notification_sound h ev (case custom_tts n of None \<Rightarrow> [] | Some t \<Rightarrow> t) w1 = (sf, w2)"
    by (cases "get_notification_sound h ev (case custom_tts n of None \<Rightarrow> [] | Some t \<Rightarrow> t) w1")
  from sound_calls [OF g] obtain r1 where r1: "calls w2 = calls w1 @ r1" by blast
  have w1c: "calls w1 = calls w @ [ShowNotification dpn (JStr cleaned)]"
    by (simp add: w1_def record_call_def)
  show ?thesis
  proof (cases sf)
    case None
    then have "send_notification h dpn n w = (Inr (), w2)"
      using assms c g by (simp add: send_notification_def w1_def)
    then show ?thesis using r1 w1c by simp
  next
    case (Some f)
    then have "send_notification h dpn n w = (Inr (), play_sound_file f w2)"
      using assms c g by (simp add: send_notification_def w1_def)
    moreover obtain r2 where "calls (play_sound_file f w2) = calls w2 @ r2"
      using play_calls by blast
    ultimately show ?thesis using r1 w1c by simp
  qed
qed

lemma send_no_notification: "send_notification h dpn no_notification w = (Inr (), w)"
  by (simp add: send_notification_def no_notification_def)

text \<open>
  Claim C3, as amended. For every Pre-tool-use hook whose tool is \<open>Bash\<close> and whose
  command is a string: if the command starts with one of the safe prefixes there is no
  notification, and so it is if the command with leading and trailing whitespace
  stripped starts with one (the second test is the one the program makes, and the first
  implies it). Otherwise a notification of category \<open>tool_activity\<close> is produced, and
  shown, if and only if the command contains one of the markers; without a marker
  nothing is shown and the world is unchanged.
\<close>

theorem bash_filter:
  assumes "hook_type hook_data = JStr ''PreToolUse''"
    and "hook_tool_name hook_data = JStr ''Bash''"
    and "py_get (hook_parameters hook_data) ''command'' (JStr []) = Inr (JStr command)"
  shows "((\<exists>pre \<in> set safe_prefixes. startswith command pre) \<longrightarrow>
            classify_hook e dpn hook_data = Inr None)
       \<and> ((\<exists>pre \<in> set safe_prefixes. startswith (py_strip command) pre) \<longrightarrow>
            classify_hook e dpn hook_data = Inr None
            \<and> handle_hook h e dpn hook_data w = (Inr (), w))
       \<and> (\<not> (\<exists>pre \<in> set safe_prefixes. startswith (py_strip command) pre) \<longrightarrow>
            ((\<exists>marker \<in> set dangerous_prefixes. contains command marker) \<longrightarrow>
               (\<exists>m t. classify_hook e dpn hook_data
                     = Inr (Some \<lparr>event_type = Some ''tool_activity'', message = JStr m,
                                   custom_tts = Some t\<rparr>))
               \<and> (\<exists>cleaned rest. fst (handle_hook h e dpn hook_data w) = Inr ()
                     \<and> calls (snd (handle_hook h e dpn hook_data w))
                         = calls w @ ShowNotification dpn (JStr cleaned) # rest))
            \<and> (\<not> (\<exists>marker \<in> set dangerous_prefixes. contains command marker) \<longrightarrow>
                 classify_hook e dpn hook_data = Inr (Some no_notification)
                 \<and> handle_hook h e dpn hook_data w = (Inr (), w)))"
proof -
  have cb: "classify_hook e dpn hook_data = classify_bash e dpn hook_data"
    using assms(1,2) by (simp add: classify_hook_def)
  have safe: "classify_hook e dpn hook_data = Inr None"
    if "\<exists>pre \<in> set safe_prefixes. startswith (py_strip command) pre"
    using that assms(3) by (simp add: cb classify_bash_def)
  have quiet: "classify_hook e dpn hook_data = Inr (Some no_notification)"
    if "\<not> (\<exists>pre \<in> set safe_prefixes. startswith (py_strip command) pre)"
      "\<not> (\<exists>marker \<in> set dangerous_prefixes. contains command marker)"
    using that assms(3) by (simp add: cb classify_bash_def)
  have loud: "\<exists>m t. m \<noteq> [] \<and> classify_hook e dpn hook_data
        = Inr (Some \<lparr>event_type = Some ''tool_activity'', message = JStr m, custom_tts = Some t\<rparr>)"
    if "\<not> (\<exists>pre \<in> set safe_prefixes. startswith (py_strip command) pre)"
      "\<exists>marker \<in> set dangerous_prefixes. contains command marker"
    using that assms(3) by (simp add: cb classify_bash_def Let_def)
  have shown: "\<exists>cleaned rest. fst (handle_hook h e dpn hook_data w) = Inr ()
        \<and> calls (snd (handle_hook h e dpn hook_data w))
            = calls w @ ShowNotification dpn (JStr cleaned) # rest"
    if a: "\<not> (\<exists>pre \<in> set safe_prefixes. startswith (py_strip command) pre)"
      "\<exists>marker \<in> set dangerous_prefixes. contains command marker"
  proof -
    from loud [OF a] obtain m t where m: "m \<noteq> []"
      "classify_hook e dpn hook_data
        = Inr (Some \<lparr>event_type = Some ''tool_activity'', message = JStr m, custom_tts = Some t\<rparr>)"
      by blast
    have "handle_hook h e dpn hook_data w = send_notification h dpn
        \<lparr>event_type = Some ''tool_activity'', message = JStr m, custom_tts = Some t\<rparr> w"
      by (simp add: handle_hook_def m(2))
    then show ?thesis
      using send_notification_shows [of "\<lparr>event_type = Some ''tool_activity'', message = JStr m, custom_tts = Some t\<rparr>"
          "''tool_activity''" m h dpn w] m(1)
      by simp
  qed
  show ?thesis
    using safe quiet loud shown safe_prefix_strip [of command]
    by (auto simp: handle_hook_def send_no_notification)
qed

theorem bash_filter_witness:
  "classify_hook example_env (JStr ''alpha'') (bash_hook ''echo hi'') = Inr None
   \<and> handle_hook working_handler example_env (JStr ''alpha'') (bash_hook ''git status'')
        empty_world = (Inr (), empty_world)
   \<and> (\<exists>cleaned rest.
         calls (snd (handle_hook working_handler example_env (JStr ''alpha'')
                       (bash_hook ''rm important.txt'') empty_world))
           = calls empty_world @ ShowNotification (JStr ''alpha'') (JStr cleaned) # rest)"
proof -
  note t = bash_filter [OF bash_hook_fields(1) bash_hook_fields(2) bash_hook_fields(3)]
  have echo: "\<exists>pre \<in> set safe_prefixes. startswith ''echo hi'' pre"
    by (simp add: safe_prefixes_def startswith_def)
  have git1: "\<not> (\<exists>pre \<in> set safe_prefixes. startswith (py_strip ''git status'') pre)"
    by (simp add: py_strip_def is_space_def safe_prefixes_def startswith_def)
  have git2: "\<not> (\<exists>marker \<in> set dangerous_prefixes. contains ''git status'' marker)"
    by (simp add: dangerous_prefixes_def startswith_def)
  have 1: "classify_hook example_env (JStr ''alpha'') (bash_hook ''echo hi'') = Inr None"
    using t [of "''echo hi''" example_env "JStr ''alpha''" working_handler empty_world] echo
    by blast
  have 2: "handle_hook working_handler example_env (JStr ''alpha'') (bash_hook ''git status'')
      empty_world = (Inr (), empty_world)"
    using t [of "''git status''" example_env "JStr ''alpha''" working_handler empty_world]
      git1 git2
    by blast
  have 3: "\<exists>cleaned rest.
      calls (snd (handle_hook working_handler example_env (JStr ''alpha'')
                    (bash_hook ''rm important.txt'') empty_world))
        = calls empty_world @ ShowNotification (JStr ''alpha'') (JStr cleaned) # rest"
    using t [of "''rm important.txt''" example_env "JStr ''alpha''" working_handler empty_world]
      not_safe_rm dangerous_rm
    by blast
  show ?thesis using 1 2 3 by blast
qed

text \<open>The claim as it stands fails for a command with leading whitespace: it does not
  start with a safe prefix and it contains a marker, and yet nothing is produced, since
  the program strips the command before it tests the prefixes.\<close>

theorem bash_filter_counterexample:
  "\<not> (\<exists>pre \<in> set safe_prefixes. startswith '' ls > out.txt'' pre)
   \<and> (\<exists>marker \<in> set dangerous_prefixes. contains '' ls > out.txt'' marker)
   \<and> classify_hook example_env (JStr ''alpha'') (bash_hook '' ls > out.txt'') = Inr None"
  by code_simp

subsection \<open>The prefix of display messages\<close>

lemma bash_message_prefix:
  "classify_bash e dpn hook_data = Inr (Some n) \<Longrightarrow> event_type n = Some ev \<Longrightarrow>
     \<exists>rest. message n = JStr (''['' @ py_str e dpn @ ''] '' @ rest)"
  by (auto simp: classify_bash_def Let_def no_notification_def
      split: sum.splits json.splits if_splits)

lemma edit_message_prefix:
  "classify_edit e dpn tool hook_data = Inr (Some n) \<Longrightarrow> event_type n = Some ev \<Longrightarrow>
     \<exists>rest. message n = JStr (''['' @ py_str e dpn @ ''] '' @ rest)"
  by (auto simp: classify_edit_def Let_def no_notification_def
      split: sum.splits json.splits if_splits bool.splits)

lemma post_message_prefix:
  "event_type (classify_post_tool_use e dpn hook_data) = Some ev \<Longrightarrow>
     \<exists>rest. message (classify_post_tool_use e dpn hook_data) = JStr (''['' @ py_str e dpn @ ''] '' @ rest)"
  by (auto simp: classify_post_tool_use_def Let_def no_notification_def
      split: json.splits if_splits)

lemma notification_message:
  "classify_notification e dpn hook_data = Inr n \<Longrightarrow>
     (event_type n = Some ''error'' \<and> message n = dict_get hook_data ''message'' (JStr ''An error occurred''))
   \<or> (event_type n = Some ''input_needed'' \<and> (\<exists>rest. message n = JStr (''['' @ py_str e dpn @ ''] '' @ rest)))"
  by (auto simp: classify_notification_def Let_def
      split: sum.splits json.splits if_splits bool.splits option.splits)

text \<open>
  Claim C2, as amended. Whenever the classification sets an event category: for the hook
  kinds Pre-tool-use, Post-tool-use, Stop, Subagent-stop and for the branch of
  Notification that is not an error, the display message is the display project name in
  square brackets, a space, and the rest. The message of Pre-compact is the fixed text
  \<open>Context compaction starting\<close>, and the error branch of Notification takes the message
  of the hook as it is (or \<open>An error occurred\<close>); neither carries the prefix.
\<close>

theorem display_message_prefix:
  assumes "classify_hook e dpn hook_data = Inr (Some n)" and "event_type n = Some ev"
  shows "(hook_type hook_data = JStr ''PreCompact'' \<longrightarrow>
            message n = JStr ''Context compaction starting'')
       \<and> (hook_type hook_data = JStr ''Notification'' \<and> ev = ''error'' \<longrightarrow>
            message n = dict_get hook_data ''message'' (JStr ''An error occurred''))
       \<and> (hook_type hook_data \<noteq> JStr ''PreCompact''
            \<and> \<not> (hook_type hook_data = JStr ''Notification'' \<and> ev = ''error'') \<longrightarrow>
            (\<exists>rest. message n = JStr (''['' @ py_str e dpn @ ''] '' @ rest)))"
proof -
  consider (pre) "hook_type hook_data = JStr ''PreToolUse''"
    | (post) "hook_type hook_data = JStr ''PostToolUse''"
    | (stop) "hook_type hook_data = JStr ''Stop''"
    | (sub) "hook_type hook_data = JStr ''SubagentStop''"
    | (compact) "hook_type hook_data = JStr ''PreCompact''"
    | (notif) "hook_type hook_data = JStr ''Notification''"
    | (other) "hook_type hook_data \<notin> {JStr ''PreToolUse'', JStr ''PostToolUse'', JStr ''Stop'',
         JStr ''SubagentStop'', JStr ''PreCompact'', JStr ''Notification''}"
    by blast
  then show ?thesis
  proof cases
    case pre
    then show ?thesis using assms bash_message_prefix [of e dpn hook_data n ev]
        edit_message_prefix [of e dpn "hook_tool_name hook_data" hook_data n ev]
      by (auto simp: classify_hook_def Let_def no_notification_def split: if_splits)
  next
    case post
    then show ?thesis using assms post_message_prefix [of e dpn hook_data ev]
      by (auto simp: classify_hook_def)
  next
    case stop
    then show ?thesis using assms by (auto simp: classify_hook_def)
  next
    case sub
    then show ?thesis using assms by (auto simp: classify_hook_def)
  next
    case compact
    then show ?thesis using assms by (auto simp: classify_hook_def)
  next
    case notif
    then show ?thesis using assms notification_message [of e dpn hook_data n]
      by (auto simp: classify_hook_def split: sum.splits)
  next
    case other
    then show ?thesis using assms by (auto simp: classify_hook_def no_notification_def)
  qed
qed

theorem display_message_prefix_witness:
  "classify_hook example_env (JStr ''alpha'') stop_hook
     = Inr (Some \<lparr>event_type = Some ''execution_complete'',
                   message = JStr ''[alpha] Task complete'',
                   custom_tts = Some ''alpha, task completed successfully''\<rparr>)
   \<and> (\<exists>rest. message \<lparr>event_type = Some ''execution_complete'',
                        message = JStr ''[alpha] Task complete'',
                        custom_tts = Some ''alpha, task completed successfully''\<rparr>
         = JStr (''[alpha] '' @ rest))"
proof -
  let ?n = "\<lparr>event_type = Some ''execution_complete'',
             message = JStr ''[alpha] Task complete'',
             custom_tts = Some ''alpha, task completed successfully''\<rparr>"
  have c: "classify_hook example_env (JStr ''alpha'') stop_hook = Inr (Some ?n)"
    by code_simp
  have ev: "event_type ?n = Some ''execution_complete''"
    by simp
  have kind: "hook_type stop_hook \<noteq> JStr ''PreCompact''
      \<and> \<not> (hook_type stop_hook = JStr ''Notification'' \<and> ''execution_complete'' = ''error'')"
    by (simp add: stop_hook_def hook_type_def dict_get_def)
  from display_message_prefix [OF c ev] kind
  have "\<exists>rest. message ?n = JStr (''['' @ py_str example_env (JStr ''alpha'') @ ''] '' @ rest)"
    by blast
  then have "\<exists>rest. message ?n = JStr (''[alpha] '' @ rest)"
    by (simp add: py_str_def)
  with c show ?thesis by blast
qed

text \<open>The claim as it stands fails for the two kinds it names: the message of a
  Pre-compact hook and the message of an error Notification do not start with the
  bracketed project name.\<close>

theorem display_message_prefix_counterexample:
  "classify_hook example_env (JStr ''alpha'') precompact_hook
     = Inr (Some \<lparr>event_type = Some ''compaction'',
                   message = JStr ''Context compaction starting'', custom_tts = None\<rparr>)
   \<and> \<not> startswith ''Context compaction starting''
         (''['' @ py_str example_env (JStr ''alpha'') @ ''] '')
   \<and> classify_hook example_env (JStr ''alpha'') error_notification_hook
     = Inr (Some \<lparr>event_type = Some ''error'',
                   message = JStr ''Rate limit reached'', custom_tts = None\<rparr>)
   \<and> \<not> startswith ''Rate limit reached''
         (''['' @ py_str example_env (JStr ''alpha'') @ ''] '')"
  by code_simp

subsection \<open>The Pre-compact hook\<close>

lemma clean_compaction:
  "clean_message (JStr ''Context compaction starting'') = Inr (JStr ''Context compaction starting'')"
  by (simp add: clean_message_def py_in_def startswith_def)

lemma default_compaction: "text_to_speak ''compaction'' [] = ''Compacting context''"
  by (simp add: text_to_speak_def default_texts_def)

text \<open>
  Claim C4, as amended. For every Pre-compact hook the classification gives the category
  \<open>compaction\<close>, the message \<open>Context compaction starting\<close> and no TTS text, and the
  notification is shown. The sound is then resolved like that of any other category,
  with the empty custom text, for which the spoken text is the default
  \<open>Compacting context\<close>: with speech switched off or no provider the notification is all
  that happens; with a provider and the file cached the file is played; with a provider
  and no cached file the synthesis of \<open>Compacting context\<close> is called.
\<close>

theorem precompact_notification:
  assumes "hook_type hook_data = JStr ''PreCompact''"
  shows "classify_hook e dpn hook_data
      = Inr (Some \<lparr>event_type = Some ''compaction'',
                    message = JStr ''Context compaction starting'', custom_tts = None\<rparr>)
     \<and> handle_hook h e dpn hook_data w
      = (let w1 = record_call (ShowNotification dpn (JStr ''Context compaction starting'')) w;
             (sound_file, w2) = get_notification_sound h ''compaction'' [] w1
         in case sound_file of
              None \<Rightarrow> (Inr (), w2)
            | Some f \<Rightarrow> (Inr (), play_sound_file f w2))
     \<and> text_to_speak ''compaction'' [] = ''Compacting context''
     \<and> (\<not> USE_TTS h \<or> tts_provider h = None \<longrightarrow>
          calls (snd (handle_hook h e dpn hook_data w))
            = calls w @ [ShowNotification dpn (JStr ''Context compaction starting'')])
     \<and> (\<forall>p. USE_TTS h \<and> tts_provider h = Some p
            \<and> sound_file_name h p ''compaction'' [] \<in> set (sound_files w) \<longrightarrow>
          calls (snd (handle_hook h e dpn hook_data w))
            = calls w @ [ShowNotification dpn (JStr ''Context compaction starting''),
                         PlaySound (sound_file_name h p ''compaction'' [])])
     \<and> (\<forall>p. USE_TTS h \<and> tts_provider h = Some p
            \<and> sound_file_name h p ''compaction'' [] \<notin> set (sound_files w) \<longrightarrow>
          (\<exists>rest. calls (snd (handle_hook h e dpn hook_data w))
            = calls w @ [ShowNotification dpn (JStr ''Context compaction starting''),
                         GenerateSound ''Compacting context''
                           (sound_file_name h p ''compaction'' [])] @ rest))"
proof -
  have c: "classify_hook e dpn hook_data
      = Inr (Some \<lparr>event_type = Some ''compaction'',
                    message = JStr ''Context compaction starting'', custom_tts = None\<rparr>)"
    using assms by (simp add: classify_hook_def)
  have hh: "handle_hook h e dpn hook_data w
      = (let w1 = record_call (ShowNotification dpn (JStr ''Context compaction starting'')) w;
             (sound_file, w2) = get_notification_sound h ''compaction'' [] w1
         in case sound_file of
              None \<Rightarrow> (Inr (), w2)
            | Some f \<Rightarrow> (Inr (), play_sound_file f w2))"
    by (simp add: handle_hook_def c send_notification_def clean_compaction)
  have off: "calls (snd (handle_hook h e dpn hook_data w))
            = calls w @ [ShowNotification dpn (JStr ''Context compaction starting'')]"
    if "\<not> USE_TTS h \<or> tts_provider h = None"
    using that by (auto simp: hh get_notification_sound_def record_call_def Let_def)
  have hit: "calls (snd (handle_hook h e dpn hook_data w))
            = calls w @ [ShowNotification dpn (JStr ''Context compaction starting''),
                         PlaySound (sound_file_name h p ''compaction'' [])]"
    if "USE_TTS h \<and> tts_provider h = Some p
            \<and> sound_file_name h p ''compaction'' [] \<in> set (sound_files w)" for p
    using that by (simp add: hh get_notification_sound_def record_call_def play_sound_file_def Let_def)
  have miss: "\<exists>rest. calls (snd (handle_hook h e dpn hook_data w))
            = calls w @ [ShowNotification dpn (JStr ''Context compaction starting''),
                         GenerateSound ''Compacting context''
                           (sound_file_name h p ''compaction'' [])] @ rest"
    if "USE_TTS h \<and> tts_provider h = Some p
            \<and> sound_file_name h p ''compaction'' [] \<notin> set (sound_files w)" for p
    using that
    by (auto simp: hh get_notification_sound_def record_call_def play_sound_file_def
        generate_def add_sound_file_def default_compaction Let_def)
  show ?thesis using c hh default_compaction off hit miss by blast
qed

theorem precompact_notification_witness:
  "classify_hook example_env (JStr ''alpha'') precompact_hook
     = Inr (Some \<lparr>event_type = Some ''compaction'',
                   message = JStr ''Context compaction starting'', custom_tts = None\<rparr>)
   \<and> calls (snd (handle_hook muted_handler example_env (JStr ''alpha'') precompact_hook
        empty_world))
     = [ShowNotification (JStr ''alpha'') (JStr ''Context compaction starting'')]"
proof -
  have kind: "hook_type precompact_hook = JStr ''PreCompact''"
    by (simp add: precompact_hook_def hook_type_def dict_get_def)
  have off: "\<not> USE_TTS muted_handler \<or> tts_provider muted_handler = None"
    by (simp add: muted_handler_def)
  from precompact_notification
         [OF kind, of example_env "JStr ''alpha''" muted_handler empty_world] off
  have "classify_hook example_env (JStr ''alpha'') precompact_hook
      = Inr (Some \<lparr>event_type = Some ''compaction'',
                    message = JStr ''Context compaction starting'', custom_tts = None\<rparr>)
    \<and> calls (snd (handle_hook muted_handler example_env (JStr ''alpha'') precompact_hook
        empty_world))
      = calls empty_world
          @ [ShowNotification (JStr ''alpha'') (JStr ''Context compaction starting'')]"
    by blast
  then show ?thesis by (simp add: empty_world_def)
qed

text \<open>The claim as it stands fails: with a working provider the Pre-compact hook has
  its sound synthesised and played.\<close>

theorem precompact_audio_counterexample:
  "handle_hook working_handler example_env (JStr ''alpha'') precompact_hook empty_world
     = (Inr (),
        \<lparr>cache_file = Missing, replacements_file = Missing,
         sound_files = [''kokoro_compaction_0123456789abcdef.mp3''],
         calls =
           [ShowNotification (JStr ''alpha'') (JStr ''Context compaction starting''),
            GenerateSound ''Compacting context'' ''kokoro_compaction_0123456789abcdef.mp3'',
            PlaySound ''kokoro_compaction_0123456789abcdef.mp3'']\<rparr>)"
  by code_simp

end
